theory Spec2Isabelle
  imports Complex_Main
begin

section \<open>Values\<close>

text \<open>
  Go's \<open>interface{}\<close> values as they occur in this service: the values of a decoded
  JSON body (\<open>map[string]interface{}\<close>), of the request-scoped key/value store of the
  router's context, of token claims and of stored documents. \<open>Nil\<close> is the nil interface
  (JSON and BSON null). A comparison such as \<open>role == "user"\<close> of an interface value with a
  string constant holds exactly when the value is that string, which is \<open>role = Str ''user''\<close>.
\<close>

datatype any =
    Nil
  | Str string
  | Number real
  | Boolean bool
  | Array "any list"
  | Object "(string \<times> any) list"

text \<open>\<open>bson.M\<close>, \<open>gin.H\<close>, \<open>jwt.MapClaims\<close> and \<open>map[string]interface{}\<close>.\<close>

type_synonym M = "string \<rightharpoonup> any"

text \<open>\<open>len(m)\<close> of a Go map.\<close>

definition len :: "M \<Rightarrow> nat" where
  "len m = card (dom m)"

section \<open>The IMC classifier (utils/complejo\_utils.go)\<close>

subsection \<open>64-bit floats\<close>

text \<open>
  A \<open>float64\<close> is NaN or a sign bit with a magnitude: zero, a positive finite number, or
  infinity. The arithmetic follows IEEE 754 on the special values; where two finite non-zero
  operands meet, the exact quotient or product is handed to \<open>rnd\<close>, the rounding of a positive
  real to the nearest representable magnitude (which may underflow to \<open>Zero\<close> or overflow to
  \<open>Infinity\<close>). The rounding function and the decimal parser \<open>strconv.ParseFloat\<close> belong to
  the language runtime; they are parameters of everything below.
\<close>

datatype magnitude = Zero | Finite real | Infinity

datatype float64 = NaN | Float bool magnitude

fun mul_mag :: "(real \<Rightarrow> magnitude) \<Rightarrow> magnitude \<Rightarrow> magnitude \<Rightarrow> magnitude option" where
  "mul_mag rnd Zero Infinity = None"
| "mul_mag rnd Infinity Zero = None"
| "mul_mag rnd Zero m = Some Zero"
| "mul_mag rnd m Zero = Some Zero"
| "mul_mag rnd Infinity m = Some Infinity"
| "mul_mag rnd m Infinity = Some Infinity"
| "mul_mag rnd (Finite a) (Finite b) = Some (rnd (a * b))"

fun div_mag :: "(real \<Rightarrow> magnitude) \<Rightarrow> magnitude \<Rightarrow> magnitude \<Rightarrow> magnitude option" where
  "div_mag rnd Zero Zero = None"
| "div_mag rnd Infinity Infinity = None"
| "div_mag rnd Zero m = Some Zero"
| "div_mag rnd m Zero = Some Infinity"
| "div_mag rnd Infinity m = Some Infinity"
| "div_mag rnd m Infinity = Some Zero"
| "div_mag rnd (Finite a) (Finite b) = Some (rnd (a / b))"

fun fmul :: "(real \<Rightarrow> magnitude) \<Rightarrow> float64 \<Rightarrow> float64 \<Rightarrow> float64" where
  "fmul rnd NaN y = NaN"
| "fmul rnd x NaN = NaN"
| "fmul rnd (Float s m) (Float t n) =
     (case mul_mag rnd m n of None \<Rightarrow> NaN | Some r \<Rightarrow> Float (s \<noteq> t) r)"

fun fdiv :: "(real \<Rightarrow> magnitude) \<Rightarrow> float64 \<Rightarrow> float64 \<Rightarrow> float64" where
  "fdiv rnd NaN y = NaN"
| "fdiv rnd x NaN = NaN"
| "fdiv rnd (Float s m) (Float t n) =
     (case div_mag rnd m n of None \<Rightarrow> NaN | Some r \<Rightarrow> Float (s \<noteq> t) r)"

text \<open>
  The number a finite float denotes (both zeros denote 0), and the position of a float on the
  extended real line: \<open>-1\<close> for negative infinity, \<open>0\<close> for the finite values, \<open>1\<close> for positive
  infinity.
\<close>

fun fval :: "float64 \<Rightarrow> real option" where
  "fval (Float s Zero) = Some 0"
| "fval (Float s (Finite r)) = Some (if s then - r else r)"
| "fval (Float s Infinity) = None"
| "fval NaN = None"

fun rank :: "float64 \<Rightarrow> int" where
  "rank (Float s Infinity) = (if s then - 1 else 1)"
| "rank x = 0"

fun num :: "float64 \<Rightarrow> real" where
  "num x = (case fval x of None \<Rightarrow> 0 | Some v \<Rightarrow> v)"

text \<open>Go's \<open><\<close> and \<open>>=\<close> on floats: every comparison with NaN is false.\<close>

fun flt :: "float64 \<Rightarrow> float64 \<Rightarrow> bool" where
  "flt NaN y = False"
| "flt x NaN = False"
| "flt x y = (rank x < rank y \<or> (rank x = rank y \<and> num x < num y))"

fun fge :: "float64 \<Rightarrow> float64 \<Rightarrow> bool" where
  "fge NaN y = False"
| "fge x NaN = False"
| "fge x y = (rank y < rank x \<or> (rank x = rank y \<and> num y \<le> num x))"

text \<open>A float constant of the source text, such as \<open>18.5\<close>.\<close>

definition lit :: "real \<Rightarrow> float64" where
  "lit r = (if r = 0 then Float False Zero else Float (r < 0) (Finite \<bar>r\<bar>))"

subsection \<open>CalcIMC\<close>

definition CalcIMC ::
  "(real \<Rightarrow> magnitude) \<Rightarrow> (string \<Rightarrow> nat \<Rightarrow> string + float64) \<Rightarrow> string \<Rightarrow> string \<Rightarrow> string" where
  "CalcIMC rnd ParseFloat weight height =
     (if weight = '''' \<or> height = '''' then ''N/A''
      else case ParseFloat weight 32 of
        Inl err \<Rightarrow> ''Invalid input''
      | Inr weightF \<Rightarrow>
          (case ParseFloat height 32 of
             Inl err \<Rightarrow> ''Invalid input''
           | Inr heightF \<Rightarrow>
               (let calcIMC = fdiv rnd weightF (fmul rnd heightF heightF) in
                if flt calcIMC (lit 18.5) then ''Soldado del Burgo De Los No Muertos''
                else if fge calcIMC (lit 18.5) \<and> flt calcIMC (lit 25) then ''NPC''
                else if fge calcIMC (lit 25) \<and> flt calcIMC (lit 30) then ''Susi Slayer''
                else ''Burger King Slayer'')))"

section \<open>The document store\<close>

text \<open>
  A collection of the document database, as the handlers use it through the driver: the stored
  documents in insertion order, a log of every driver call made so far (oldest first), and the
  error the driver returns for a call, if any (a lost connection, a rejected command). The log
  is what "performs no database operation" is stated on. A query is a list of field/value
  pairs, all of which a matching document must hold; field names are top-level names.
\<close>

type_synonym query = "(string \<times> any) list"

datatype update =
    Op_set M
  | Op_addToSet string any
  | Op_pull string any

datatype db_call =
    InsertOne_call M
  | Find_call query
  | Close_call
  | UpdateOne_call query update

record UpdateResult =
  MatchedCount :: nat
  ModifiedCount :: nat

record collection =
  docs :: "M list"
  calls :: "db_call list"
  fault :: "db_call \<Rightarrow> string option"

definition matches :: "query \<Rightarrow> M \<Rightarrow> bool" where
  "matches q d = list_all (\<lambda>(k, v). d k = Some v) q"

text \<open>
  The three update operators the handlers send. \<open>$set\<close> overwrites the listed fields;
  \<open>$addToSet\<close> appends a value to an array field unless it is already an element, creating the
  field when it is absent; \<open>$pull\<close> removes every element equal to the value. Both array
  operators are rejected on a field that holds something other than an array. The flag says
  whether the document changed; it becomes \<open>ModifiedCount\<close>, which only the two subscription
  handlers read.
\<close>

fun apply_update :: "update \<Rightarrow> M \<Rightarrow> string + (M \<times> bool)" where
  "apply_update (Op_set m) d = Inr (d ++ m, d ++ m \<noteq> d)"
| "apply_update (Op_addToSet f v) d =
     (case d f of
        None \<Rightarrow> Inr (d(f \<mapsto> Array [v]), True)
      | Some (Array xs) \<Rightarrow>
          (if v \<in> set xs then Inr (d, False) else Inr (d(f \<mapsto> Array (xs @ [v])), True))
      | Some other \<Rightarrow> Inl ''Cannot apply $addToSet to non-array field'')"
| "apply_update (Op_pull f v) d =
     (case d f of
        None \<Rightarrow> Inr (d, False)
      | Some (Array xs) \<Rightarrow>
          (if v \<in> set xs then Inr (d(f \<mapsto> Array (removeAll v xs)), True) else Inr (d, False))
      | Some other \<Rightarrow> Inl ''Cannot apply $pull to a non-array value'')"

text \<open>\<open>UpdateOne\<close> changes the first document that matches, and counts it.\<close>

fun update_first :: "query \<Rightarrow> update \<Rightarrow> M list \<Rightarrow> string + (M list \<times> UpdateResult)" where
  "update_first q u [] = Inr ([], \<lparr>MatchedCount = 0, ModifiedCount = 0\<rparr>)"
| "update_first q u (d # ds) =
     (if matches q d then
        (case apply_update u d of
           Inl e \<Rightarrow> Inl e
         | Inr (d', changed) \<Rightarrow>
             Inr (d' # ds, \<lparr>MatchedCount = 1, ModifiedCount = (if changed then 1 else 0)\<rparr>))
      else
        (case update_first q u ds of
           Inl e \<Rightarrow> Inl e
         | Inr (ds', r) \<Rightarrow> Inr (d # ds', r)))"

definition UpdateOne :: "collection \<Rightarrow> query \<Rightarrow> update \<Rightarrow> (string + UpdateResult) \<times> collection" where
  "UpdateOne coll q u =
     (let coll1 = coll\<lparr>calls := calls coll @ [UpdateOne_call q u]\<rparr> in
      case fault coll (UpdateOne_call q u) of
        Some e \<Rightarrow> (Inl e, coll1)
      | None \<Rightarrow>
          (case update_first q u (docs coll) of
             Inl e \<Rightarrow> (Inl e, coll1)
           | Inr (ds, r) \<Rightarrow> (Inr r, coll1\<lparr>docs := ds\<rparr>)))"


text \<open>
  \<open>Find\<close> returns a cursor over the matching documents; \<open>cursor.All\<close> decodes each of them into
  the target struct with the driver's decoder (a parameter) and fails at the first document
  that does not decode; \<open>cursor.Close\<close> may fail as any driver call may.
\<close>

definition Find :: "collection \<Rightarrow> query \<Rightarrow> (string + M list) \<times> collection" where
  "Find coll q =
     (let coll1 = coll\<lparr>calls := calls coll @ [Find_call q]\<rparr> in
      case fault coll (Find_call q) of
        Some e \<Rightarrow> (Inl e, coll1)
      | None \<Rightarrow> (Inr (filter (matches q) (docs coll)), coll1))"

fun cursor_All :: "(M \<Rightarrow> string + 'a) \<Rightarrow> M list \<Rightarrow> string + 'a list" where
  "cursor_All decode [] = Inr []"
| "cursor_All decode (d # ds) =
     (case decode d of
        Inl e \<Rightarrow> Inl e
      | Inr x \<Rightarrow>
          (case cursor_All decode ds of
             Inl e \<Rightarrow> Inl e
           | Inr xs \<Rightarrow> Inr (x # xs)))"

definition cursor_Close :: "collection \<Rightarrow> string option \<times> collection" where
  "cursor_Close coll = (fault coll Close_call, coll\<lparr>calls := calls coll @ [Close_call]\<rparr>)"

section \<open>The router's request context\<close>

text \<open>
  What a handler reads from \<open>*gin.Context\<close>: the request-scoped key/value store \<open>Keys\<close>
  (\<open>c.Get\<close>, \<open>c.Set\<close>), the path parameters the matched route bound (\<open>c.Param\<close>), the request
  headers (\<open>c.GetHeader\<close>), and the outcome of \<open>c.ShouldBindJSON\<close> on the request body: the
  decoder's error message, or the decoded value of the type the handler binds to.
  A response is one call of \<open>c.JSON\<close>: the HTTP status and the body map.
\<close>

record 'b gin_context =
  Keys :: M
  Params :: "(string \<times> string) list"
  Header :: "string \<rightharpoonup> string"
  ShouldBindJSON :: "string + 'b"

record response =
  http_status :: nat
  body :: M

definition JSON :: "nat \<Rightarrow> M \<Rightarrow> response" where
  "JSON st h = \<lparr>http_status = st, body = h\<rparr>"

definition Get :: "'b gin_context \<Rightarrow> string \<Rightarrow> any \<times> bool" where
  "Get c k = (case Keys c k of None \<Rightarrow> (Nil, False) | Some v \<Rightarrow> (v, True))"

definition Param :: "'b gin_context \<Rightarrow> string \<Rightarrow> string" where
  "Param c k = (case map_of (Params c) k of None \<Rightarrow> '''' | Some v \<Rightarrow> v)"

definition GetHeader :: "'b gin_context \<Rightarrow> string \<Rightarrow> string" where
  "GetHeader c k = (case Header c k of None \<Rightarrow> '''' | Some v \<Rightarrow> v)"

text \<open>\<open>utils.SetContextValues\<close>: \<open>c.Set\<close> for every entry of the map.\<close>

definition SetContextValues :: "'b gin_context \<Rightarrow> M \<Rightarrow> 'b gin_context" where
  "SetContextValues c values = c\<lparr>Keys := Keys c ++ values\<rparr>"

section \<open>Tokens (utils/token\_utils.go)\<close>

text \<open>
  The token library (golang-jwt) is not part of the service. Its primitives are taken as a
  parameter \<open>lib\<close>: splitting a compact token and decoding its header and claims
  (\<open>None\<close> for a malformed token), verifying the signature of a token under a signing method
  and a key, validating the registered claims (expiry and the like) at the time of the call,
  and signing. \<open>jwt_Parse\<close> is the order in which \<open>jwt.Parse\<close> applies them around the
  caller's key function; it always builds the claims as \<open>jwt.MapClaims\<close>.
\<close>

type_synonym key = string

datatype SigningMethod =
    SigningMethodHMAC string
  | SigningMethodOther string

datatype jwt_Claims =
    MapClaims M
  | OtherClaims

record Token =
  Method :: SigningMethod
  Claims :: jwt_Claims
  Valid :: bool

record jwt_library =
  decode_segments :: "string \<Rightarrow> (SigningMethod \<times> M) option"
  verify_signature :: "SigningMethod \<Rightarrow> key \<Rightarrow> string \<Rightarrow> bool"
  validate_claims :: "M \<Rightarrow> bool"
  sign :: "SigningMethod \<Rightarrow> key \<Rightarrow> jwt_Claims \<Rightarrow> string + string"

definition SigningMethodHS256 :: SigningMethod where
  "SigningMethodHS256 = SigningMethodHMAC ''HS256''"

definition NewWithClaims :: "SigningMethod \<Rightarrow> jwt_Claims \<Rightarrow> Token" where
  "NewWithClaims m cl = \<lparr>Method = m, Claims = cl, Valid = False\<rparr>"


definition jwt_Parse :: "jwt_library \<Rightarrow> string \<Rightarrow> (Token \<Rightarrow> string + key) \<Rightarrow> string + Token" where
  "jwt_Parse lib tokenString keyFunc =
     (case decode_segments lib tokenString of
        None \<Rightarrow> Inl ''token is malformed''
      | Some (m, cl) \<Rightarrow>
          (let tok = NewWithClaims m (MapClaims cl) in
           case keyFunc tok of
             Inl e \<Rightarrow> Inl (''token is unverifiable: '' @ e)
           | Inr k \<Rightarrow>
               (if \<not> verify_signature lib m k tokenString then Inl ''signature is invalid''
                else if \<not> validate_claims lib cl then Inl ''token has invalid claims''
                else Inr (tok\<lparr>Valid := True\<rparr>))))"


section \<open>The authentication middleware (middleware.go)\<close>

text \<open>
  The middleware either aborts the chain with a response or hands the context, with the
  identity attached, to the next handler.
\<close>

datatype 'b outcome =
    Abort response
  | Next "'b gin_context"

text \<open>The key function: the type assertion \<open>token.Method.(*jwt.SigningMethodHMAC)\<close>.\<close>

definition keyFunc :: "key \<Rightarrow> Token \<Rightarrow> string + key" where
  "keyFunc JWTSecret tok =
     (case Method tok of
        SigningMethodHMAC alg \<Rightarrow> Inr JWTSecret
      | SigningMethodOther alg \<Rightarrow> Inl ''signature is invalid'')"

text \<open>The type assertion \<open>claims[k].(string)\<close> on a claim that may be absent.\<close>

definition string_claim :: "any option \<Rightarrow> string \<times> bool" where
  "string_claim v = (case v of Some (Str s) \<Rightarrow> (s, True) | _ \<Rightarrow> ('''', False))"

definition AuthMiddleware :: "jwt_library \<Rightarrow> key \<Rightarrow> 'b gin_context \<Rightarrow> 'b outcome" where
  "AuthMiddleware lib JWTSecret c =
     (let tokenString = GetHeader c ''Authorization'' in
      if tokenString = '''' then
        Abort (JSON 401 [''status'' \<mapsto> Str ''error'',
                         ''message'' \<mapsto> Str ''Authorization token is required''])
      else
        (case jwt_Parse lib tokenString (keyFunc JWTSecret) of
           Inl err \<Rightarrow>
             Abort (JSON 401 [''status'' \<mapsto> Str ''error'',
                              ''message'' \<mapsto> Str ''Invalid or expired token''])
         | Inr tok \<Rightarrow>
             (if \<not> Valid tok then
                Abort (JSON 401 [''status'' \<mapsto> Str ''error'',
                                 ''message'' \<mapsto> Str ''Invalid or expired token''])
              else
                (case Claims tok of
                   OtherClaims \<Rightarrow>
                     Abort (JSON 401 [''status'' \<mapsto> Str ''error'',
                                      ''message'' \<mapsto> Str ''Invalid token claims''])
                 | MapClaims claims \<Rightarrow>
                     (let (role, roleOk) = string_claim (claims ''role'');
                          (username, usernameOk) = string_claim (claims ''username'');
                          (id', idOk) = string_claim (claims ''_id'')
                      in
                      if \<not> roleOk \<or> role = '''' then
                        Abort (JSON 403 [''status'' \<mapsto> Str ''error'',
                                         ''message'' \<mapsto> Str ''Role is missing or invalid in the token''])
                      else if \<not> usernameOk \<or> username = '''' then
                        Abort (JSON 403 [''status'' \<mapsto> Str ''error'',
                                         ''message'' \<mapsto> Str ''Username is missing or invalid in the token''])
                      else if \<not> idOk \<or> id' = '''' then
                        Abort (JSON 403 [''status'' \<mapsto> Str ''error'',
                                         ''message'' \<mapsto> Str ''User ID is missing or invalid in the token''])
                      else
                        Next (SetContextValues c
                                [''_id'' \<mapsto> Str id', ''username'' \<mapsto> Str username,
                                 ''role'' \<mapsto> Str role]))))))"

section \<open>The Complejo handlers (complejo\_handler.go)\<close>

record Complejo =
  ID :: string
  Username :: string
  Password :: string
  Role :: string
  Weight :: string
  Height :: string
  IMC :: string
  Gender :: string
  Bench :: string
  Squad :: string
  DL :: string
  Photo :: string

text \<open>The JSON encoding of the struct, by its \<open>json\<close> tags.\<close>

definition Complejo_json :: "Complejo \<Rightarrow> any" where
  "Complejo_json x =
     Object [(''_id'', Str (ID x)), (''username'', Str (Username x)),
             (''password'', Str (Password x)), (''role'', Str (Role x)),
             (''weight'', Str (Weight x)), (''height'', Str (Height x)),
             (''imc'', Str (IMC x)), (''gender'', Str (Gender x)),
             (''bench'', Str (Bench x)), (''squad'', Str (Squad x)),
             (''dl'', Str (DL x)), (''photo'', Str (Photo x))]"

text \<open>The document \<open>CreateComplejo\<close> builds for insertion, field by field from the struct.\<close>

definition Complejo_document :: "Complejo \<Rightarrow> M" where
  "Complejo_document complejo =
     [''_id'' \<mapsto> Str (ID complejo),
      ''username'' \<mapsto> Str (Username complejo),
      ''password'' \<mapsto> Str (Password complejo),
      ''role'' \<mapsto> Str (Role complejo),
      ''weight'' \<mapsto> Str (Weight complejo),
      ''height'' \<mapsto> Str (Height complejo),
      ''imc'' \<mapsto> Str (IMC complejo),
      ''gender'' \<mapsto> Str (Gender complejo),
      ''bench'' \<mapsto> Str (Bench complejo),
      ''squad'' \<mapsto> Str (Squad complejo),
      ''dl'' \<mapsto> Str (DL complejo),
      ''photo'' \<mapsto> Str (Photo complejo)]"


text \<open>
  The list handlers. The deferred \<open>cursor.Close\<close> runs after the handler's own response; when
  it fails a second body is written. The handler therefore returns the list of its \<open>c.JSON\<close>
  calls in order; the HTTP status of the reply is that of the first.
\<close>

definition GetComplejos ::
  "(M \<Rightarrow> string + Complejo) \<Rightarrow> collection \<Rightarrow> 'b gin_context \<Rightarrow> response list \<times> collection" where
  "GetComplejos decode collection c =
     (case Find collection [] of
        (Inl err, coll1) \<Rightarrow>
          ([JSON 500 [''status'' \<mapsto> Str ''error'', ''code'' \<mapsto> Number 500,
                      ''message'' \<mapsto> Str (''Failed to fetch Complejos from the database: '' @ err)]],
           coll1)
      | (Inr cursor, coll1) \<Rightarrow>
          (let reply =
                 (case cursor_All decode cursor of
                    Inl err \<Rightarrow>
                      JSON 500 [''status'' \<mapsto> Str ''error'', ''code'' \<mapsto> Number 500,
                                ''message'' \<mapsto> Str (''Failed to parse Complejos data: '' @ err)]
                  | Inr complejos \<Rightarrow>
                      (if length complejos = 0 then
                         JSON 404 [''status'' \<mapsto> Str ''error'', ''code'' \<mapsto> Number 404,
                                   ''message'' \<mapsto> Str ''No Complejos found in the database'']
                       else
                         JSON 200 [''status'' \<mapsto> Str ''success'', ''code'' \<mapsto> Number 200,
                                   ''message'' \<mapsto> Str ''Complejos retrieved successfully'',
                                   ''data'' \<mapsto> Array (map Complejo_json complejos)]));
               (closed, coll2) = cursor_Close coll1
           in
           case closed of
             None \<Rightarrow> ([reply], coll2)
           | Some err \<Rightarrow>
               ([reply,
                 JSON 500 [''status'' \<mapsto> Str ''error'', ''code'' \<mapsto> Number 500,
                           ''message'' \<mapsto> Str (''Failed to close the database cursor: '' @ err)]],
                coll2)))"

definition allowedFields :: "string list" where
  "allowedFields = [''username'', ''weight'', ''height'', ''bench'', ''squad'', ''deadlift'', ''photo'']"

text \<open>The loop over \<open>allowedFields\<close> that copies the fields the payload has.\<close>

fun copy_fields :: "string list \<Rightarrow> M \<Rightarrow> M \<Rightarrow> M" where
  "copy_fields [] updateData filteredUpdate = filteredUpdate"
| "copy_fields (field # rest) updateData filteredUpdate =
     (case updateData field of
        Some v \<Rightarrow> copy_fields rest updateData (filteredUpdate(field \<mapsto> v))
      | None \<Rightarrow> copy_fields rest updateData filteredUpdate)"

definition UpdateComplejoForUser :: "collection \<Rightarrow> M gin_context \<Rightarrow> response \<times> collection" where
  "UpdateComplejoForUser collection c =
     (let (id', idExist) = Get c ''_id'';
          (role, roleExist) = Get c ''role''
      in
      if \<not> idExist \<or> \<not> roleExist \<or> role = Str ''user'' then
        (JSON 403 [''status'' \<mapsto> Str ''error'', ''code'' \<mapsto> Number 403,
                   ''message'' \<mapsto> Str ''You do not have permission to update this Complejo.''],
         collection)
      else
        (case ShouldBindJSON c of
           Inl err \<Rightarrow>
             (JSON 400 [''status'' \<mapsto> Str ''error'', ''code'' \<mapsto> Number 400,
                        ''message'' \<mapsto> Str (''Invalid JSON format: '' @ err)], collection)
         | Inr updateData \<Rightarrow>
             (let filteredUpdate = copy_fields allowedFields updateData Map.empty in
              if len filteredUpdate = 0 then
                (JSON 400 [''status'' \<mapsto> Str ''error'', ''code'' \<mapsto> Number 400,
                           ''message'' \<mapsto> Str ''No valid fields to update''], collection)
              else
                (case UpdateOne collection [(''_id'', id'), (''role'', Str ''user'')]
                        (Op_set filteredUpdate) of
                   (Inl err, coll') \<Rightarrow>
                     (JSON 500 [''status'' \<mapsto> Str ''error'', ''code'' \<mapsto> Number 500,
                                ''message'' \<mapsto> Str (''Failed to update Complejo: '' @ err)], coll')
                 | (Inr result, coll') \<Rightarrow>
                     (if MatchedCount result = 0 then
                        (JSON 404 [''status'' \<mapsto> Str ''error'', ''code'' \<mapsto> Number 404,
                                   ''message'' \<mapsto> Str ''Complejo not found or insufficient permissions''],
                         coll')
                      else
                        (JSON 200 [''status'' \<mapsto> Str ''success'', ''code'' \<mapsto> Number 200,
                                   ''message'' \<mapsto> Str ''Complejo updated successfully''], coll'))))))"

text \<open>
  The admin update. Go's \<open>&&\<close> binds tighter than \<open>||\<close>, so the guard
  \<open>!roleExists || role != "admin" && !idExist || id != "_id"\<close> is a disjunction of three.
\<close>

definition UpdateComplejoForAdmin :: "collection \<Rightarrow> M gin_context \<Rightarrow> response \<times> collection" where
  "UpdateComplejoForAdmin collection c =
     (let (role, roleExists) = Get c ''role'';
          (id', idExist) = Get c ''_id''
      in
      if \<not> roleExists \<or> (role \<noteq> Str ''admin'' \<and> \<not> idExist) \<or> id' \<noteq> Str ''_id'' then
        (JSON 403 [''status'' \<mapsto> Str ''error'', ''code'' \<mapsto> Number 403,
                   ''message'' \<mapsto> Str ''You do not have permission to update this Complejo.''],
         collection)
      else
        (case ShouldBindJSON c of
           Inl err \<Rightarrow>
             (JSON 400 [''status'' \<mapsto> Str ''error'', ''code'' \<mapsto> Number 400,
                        ''message'' \<mapsto> Str (''Invalid JSON format: '' @ err)], collection)
         | Inr decoded \<Rightarrow>
             (let updateData = decoded(''_id'' := None) in
              case UpdateOne collection [(''_id'', id')] (Op_set updateData) of
                (Inl err, coll') \<Rightarrow>
                  (JSON 500 [''status'' \<mapsto> Str ''error'', ''code'' \<mapsto> Number 500,
                             ''message'' \<mapsto> Str (''Failed to update Complejo: '' @ err)], coll')
              | (Inr result, coll') \<Rightarrow>
                  (if MatchedCount result = 0 then
                     (JSON 404 [''status'' \<mapsto> Str ''error'', ''code'' \<mapsto> Number 404,
                                ''message'' \<mapsto> Str ''Complejo not found''], coll')
                   else
                     (JSON 200 [''status'' \<mapsto> Str ''success'', ''code'' \<mapsto> Number 200,
                                ''message'' \<mapsto> Str ''Complejo updated successfully''], coll')))))"

section \<open>The Event handlers (event\_handler.go)\<close>

text \<open>
  \<open>GetEvents\<close> has the shape of \<open>GetComplejos\<close>; the driver's decoder into the Event struct and
  the JSON encoder of that struct are parameters.
\<close>

definition GetEvents ::
  "(M \<Rightarrow> string + 'e) \<Rightarrow> ('e \<Rightarrow> any) \<Rightarrow> collection \<Rightarrow> 'b gin_context \<Rightarrow> response list \<times> collection" where
  "GetEvents decode to_json collection c =
     (case Find collection [] of
        (Inl err, coll1) \<Rightarrow>
          ([JSON 500 [''status'' \<mapsto> Str ''error'', ''code'' \<mapsto> Number 500,
                      ''message'' \<mapsto> Str (''Failed to fetch Event from the database: '' @ err)]],
           coll1)
      | (Inr cursor, coll1) \<Rightarrow>
          (let reply =
                 (case cursor_All decode cursor of
                    Inl err \<Rightarrow>
                      JSON 500 [''status'' \<mapsto> Str ''error'', ''code'' \<mapsto> Number 500,
                                ''message'' \<mapsto> Str (''Failed to parse Events data: '' @ err)]
                  | Inr events \<Rightarrow>
                      (if length events = 0 then
                         JSON 404 [''status'' \<mapsto> Str ''error'', ''code'' \<mapsto> Number 404,
                                   ''message'' \<mapsto> Str ''No Event found in the database'']
                       else
                         JSON 200 [''status'' \<mapsto> Str ''success'', ''code'' \<mapsto> Number 200,
                                   ''message'' \<mapsto> Str ''Event retrieved successfully'',
                                   ''data'' \<mapsto> Array (map to_json events)]));
               (closed, coll2) = cursor_Close coll1
           in
           case closed of
             None \<Rightarrow> ([reply], coll2)
           | Some err \<Rightarrow>
               ([reply,
                 JSON 500 [''status'' \<mapsto> Str ''error'', ''code'' \<mapsto> Number 500,
                           ''message'' \<mapsto> Str (''Failed to close the database cursor: '' @ err)]],
                coll2)))"

definition UpdateEventForAdmin :: "collection \<Rightarrow> M gin_context \<Rightarrow> response \<times> collection" where
  "UpdateEventForAdmin collection c =
     (let (role, roleExists) = Get c ''role'';
          (id', idExist) = Get c ''_id''
      in
      if \<not> roleExists \<or> (role \<noteq> Str ''admin'' \<and> \<not> idExist) \<or> id' \<noteq> Str ''_id'' then
        (JSON 403 [''status'' \<mapsto> Str ''error'', ''code'' \<mapsto> Number 403,
                   ''message'' \<mapsto> Str ''You do not have permission to update this Complejo.''],
         collection)
      else
        (case ShouldBindJSON c of
           Inl err \<Rightarrow>
             (JSON 400 [''status'' \<mapsto> Str ''error'', ''code'' \<mapsto> Number 400,
                        ''message'' \<mapsto> Str (''Invalid JSON format: '' @ err)], collection)
         | Inr decoded \<Rightarrow>
             (let updateData = decoded(''_id'' := None) in
              case UpdateOne collection [(''_id'', id')] (Op_set updateData) of
                (Inl err, coll') \<Rightarrow>
                  (JSON 500 [''status'' \<mapsto> Str ''error'', ''code'' \<mapsto> Number 500,
                             ''message'' \<mapsto> Str (''Failed to update Complejo: '' @ err)], coll')
              | (Inr result, coll') \<Rightarrow>
                  (if MatchedCount result = 0 then
                     (JSON 404 [''status'' \<mapsto> Str ''error'', ''code'' \<mapsto> Number 404,
                                ''message'' \<mapsto> Str ''Complejo not found''], coll')
                   else
                     (JSON 200 [''status'' \<mapsto> Str ''success'', ''code'' \<mapsto> Number 200,
                                ''message'' \<mapsto> Str ''Complejo updated successfully''], coll')))))"

definition SubscribeEvent :: "collection \<Rightarrow> 'b gin_context \<Rightarrow> response \<times> collection" where
  "SubscribeEvent collection c =
     (let eventID = Param c ''_id'';
          (username, exist) = Get c ''username''
      in
      if \<not> exist \<or> username = Str ''username'' then
        (JSON 403 [''status'' \<mapsto> Str ''error'', ''code'' \<mapsto> Number 403,
                   ''message'' \<mapsto> Str ''You do not have a valid username.''], collection)
      else
        (case UpdateOne collection [(''_id'', Str eventID)] (Op_addToSet ''participants'' username) of
           (Inl err, coll') \<Rightarrow>
             (JSON 500 [''status'' \<mapsto> Str ''error'',
                        ''message'' \<mapsto> Str (''Failed to subscribe to the event: '' @ err)], coll')
         | (Inr result, coll') \<Rightarrow>
             (if MatchedCount result = 0 then
                (JSON 404 [''status'' \<mapsto> Str ''error'',
                           ''message'' \<mapsto> Str ''Event not found''], coll')
              else if ModifiedCount result = 0 then
                (JSON 409 [''status'' \<mapsto> Str ''error'',
                           ''message'' \<mapsto> Str ''Complejo is already subscribed to the event.''], coll')
              else
                (JSON 200 [''status'' \<mapsto> Str ''success'',
                           ''message'' \<mapsto> Str ''Successfully subscribed to the event''], coll'))))"

definition UnsuscribeEvent :: "collection \<Rightarrow> 'b gin_context \<Rightarrow> response \<times> collection" where
  "UnsuscribeEvent collection c =
     (let eventID = Param c ''_id'';
          (username, exist) = Get c ''username''
      in
      if \<not> exist \<or> username = Str ''username'' then
        (JSON 403 [''status'' \<mapsto> Str ''error'', ''code'' \<mapsto> Number 403,
                   ''message'' \<mapsto> Str ''You do not have a valid username.''], collection)
      else
        (case UpdateOne collection [(''_id'', Str eventID)] (Op_pull ''participants'' username) of
           (Inl err, coll') \<Rightarrow>
             (JSON 500 [''status'' \<mapsto> Str ''error'',
                        ''message'' \<mapsto> Str (''Failed to unsubscribe from event: '' @ err)], coll')
         | (Inr result, coll') \<Rightarrow>
             (if MatchedCount result = 0 then
                (JSON 404 [''status'' \<mapsto> Str ''error'',
                           ''message'' \<mapsto> Str ''Event not found or user not subscribed''], coll')
              else if ModifiedCount result = 0 then
                (JSON 409 [''status'' \<mapsto> Str ''error'',
                           ''message'' \<mapsto> Str ''Complejo is not already subscribed to the event.''], coll')
              else
                (JSON 200 [''status'' \<mapsto> Str ''success'',
                           ''message'' \<mapsto> Str ''Successfully unsubscribed from event''], coll'))))"

section \<open>The routes (main.go)\<close>

text \<open>
  A request is its path (split at the slashes), its headers and the outcome of decoding its
  JSON body. A route pattern binds each segment that starts with a colon to the request's
  segment at that place, under the name after the colon; the other segments must be equal.
  The subscription routes are registered as \<open>/event/:id/subscribe\<close> and
  \<open>/event/:id/unsubscribe\<close>, each behind the authentication middleware.
\<close>

record 'b request =
  req_path :: "string list"
  req_header :: "string \<rightharpoonup> string"
  req_body :: "string + 'b"

fun match_route :: "string list \<Rightarrow> string list \<Rightarrow> (string \<times> string) list option" where
  "match_route [] [] = Some []"
| "match_route (p # ps) (s # ss) =
     (if p \<noteq> [] \<and> hd p = CHR '':'' then
        (if s = [] then None
         else (case match_route ps ss of None \<Rightarrow> None | Some bound \<Rightarrow> Some ((tl p, s) # bound)))
      else if p = s then match_route ps ss
      else None)"
| "match_route ps ss = None"

definition new_context :: "(string \<times> string) list \<Rightarrow> 'b request \<Rightarrow> 'b gin_context" where
  "new_context bound req =
     \<lparr>Keys = Map.empty, Params = bound, Header = req_header req, ShouldBindJSON = req_body req\<rparr>"

definition with_auth ::
  "jwt_library \<Rightarrow> key \<Rightarrow> (collection \<Rightarrow> 'b gin_context \<Rightarrow> response \<times> collection) \<Rightarrow>
   collection \<Rightarrow> 'b gin_context \<Rightarrow> response \<times> collection" where
  "with_auth lib JWTSecret handler collection c =
     (case AuthMiddleware lib JWTSecret c of
        Abort r \<Rightarrow> (r, collection)
      | Next c' \<Rightarrow> handler collection c')"

definition PUT_event_subscribe ::
  "jwt_library \<Rightarrow> key \<Rightarrow> collection \<Rightarrow> 'b request \<Rightarrow> (response \<times> collection) option" where
  "PUT_event_subscribe lib JWTSecret event_collection req =
     (case match_route [''event'', '':id'', ''subscribe''] (req_path req) of
        None \<Rightarrow> None
      | Some bound \<Rightarrow>
          Some (with_auth lib JWTSecret SubscribeEvent event_collection (new_context bound req)))"

definition PUT_event_unsubscribe ::
  "jwt_library \<Rightarrow> key \<Rightarrow> collection \<Rightarrow> 'b request \<Rightarrow> (response \<times> collection) option" where
  "PUT_event_unsubscribe lib JWTSecret event_collection req =
     (case match_route [''event'', '':id'', ''unsubscribe''] (req_path req) of
        None \<Rightarrow> None
      | Some bound \<Rightarrow>
          Some (with_auth lib JWTSecret UnsuscribeEvent event_collection (new_context bound req)))"

definition PUT_complejo_user ::
  "jwt_library \<Rightarrow> key \<Rightarrow> collection \<Rightarrow> M request \<Rightarrow> (response \<times> collection) option" where
  "PUT_complejo_user lib JWTSecret complejo_collection req =
     (case match_route [''complejo'', ''user''] (req_path req) of
        None \<Rightarrow> None
      | Some bound \<Rightarrow>
          Some (with_auth lib JWTSecret UpdateComplejoForUser complejo_collection
                  (new_context bound req)))"

definition PUT_complejo_admin ::
  "jwt_library \<Rightarrow> key \<Rightarrow> collection \<Rightarrow> M request \<Rightarrow> (response \<times> collection) option" where
  "PUT_complejo_admin lib JWTSecret complejo_collection req =
     (case match_route [''complejo'', ''admin''] (req_path req) of
        None \<Rightarrow> None
      | Some bound \<Rightarrow>
          Some (with_auth lib JWTSecret UpdateComplejoForAdmin complejo_collection
                  (new_context bound req)))"

definition PUT_event_admin ::
  "jwt_library \<Rightarrow> key \<Rightarrow> collection \<Rightarrow> M request \<Rightarrow> (response \<times> collection) option" where
  "PUT_event_admin lib JWTSecret event_collection req =
     (case match_route [''event'', ''admin''] (req_path req) of
        None \<Rightarrow> None
      | Some bound \<Rightarrow>
          Some (with_auth lib JWTSecret UpdateEventForAdmin event_collection
                  (new_context bound req)))"

section \<open>Sample inputs\<close>

text \<open>
  Concrete inputs on which the theorems below are exercised. The sample parser knows a few
  decimal numerals that a float represents exactly, so that rounding with \<open>Finite\<close> (no
  rounding at all) is the true rounding on the quotients that occur.
\<close>

definition sample_ParseFloat :: "string \<Rightarrow> nat \<Rightarrow> string + float64" where
  "sample_ParseFloat s bitSize =
     (case map_of [(''0'', 0), (''2'', 2), (''70'', 70), (''72'', 72), (''80'', 80),
                   (''108'', 108), (''128'', 128)] s of
        None \<Rightarrow> Inl ''invalid syntax''
      | Some r \<Rightarrow> Inr (lit r))"

text \<open>
  A stand-in for the token library that knows five tokens: one issued to the user alice, one
  to the administrator root, one to a user who chose the name \<open>username\<close>, one whose header
  names the algorithm \<open>none\<close>, and one whose claims lack the role. Signatures verify under the sample secret only.
\<close>

definition sample_secret :: key where
  "sample_secret = ''s3cret''"

definition alice_id :: string where
  "alice_id = ''7d9e6a3c-5b1f-4e2a-9c0d-1f2e3a4b5c6d''"

definition root_id :: string where
  "root_id = ''0b0c7f2e-8a41-4d5b-b6a7-3c9d2e1f0a4b''"

definition alice_claims :: M where
  "alice_claims = [''_id'' \<mapsto> Str alice_id, ''username'' \<mapsto> Str ''alice'', ''role'' \<mapsto> Str ''user'']"

definition root_claims :: M where
  "root_claims = [''_id'' \<mapsto> Str root_id, ''username'' \<mapsto> Str ''root'', ''role'' \<mapsto> Str ''admin'']"

definition sample_lib :: jwt_library where
  "sample_lib =
     \<lparr>decode_segments =
        map_of [(''tok.alice'', (SigningMethodHS256, alice_claims)),
                (''tok.root'', (SigningMethodHS256, root_claims)),
                (''tok.username'', (SigningMethodHS256,
                    [''_id'' \<mapsto> Str ''c1d2e3f4-0a1b-4c2d-8e3f-4a5b6c7d8e9f'',
                     ''username'' \<mapsto> Str ''username'', ''role'' \<mapsto> Str ''user''])),
                (''tok.none'', (SigningMethodOther ''none'', alice_claims)),
                (''tok.norole'', (SigningMethodHS256,
                    [''_id'' \<mapsto> Str alice_id, ''username'' \<mapsto> Str ''alice'']))],
      verify_signature = (\<lambda>m k s. k = sample_secret),
      validate_claims = (\<lambda>cl. True),
      sign = (\<lambda>m k cl.
        case cl of
          OtherClaims \<Rightarrow> Inl ''unsupported claims''
        | MapClaims m \<Rightarrow>
            (case m ''username'' of
               Some (Str u) \<Rightarrow> Inr (''tok.'' @ u)
             | other \<Rightarrow> Inl ''unsupported claims''))\<rparr>"

definition sample_context :: "(string \<rightharpoonup> string) \<Rightarrow> M gin_context" where
  "sample_context h = \<lparr>Keys = Map.empty, Params = [], Header = h, ShouldBindJSON = Inl ''EOF''\<rparr>"

text \<open>Requests, and a stored event nobody has subscribed to yet.\<close>

definition sample_request :: "string list \<Rightarrow> string \<Rightarrow> M request" where
  "sample_request path tok =
     \<lparr>req_path = path, req_header = [''Authorization'' \<mapsto> tok], req_body = Inl ''EOF''\<rparr>"

definition event_id :: string where
  "event_id = ''5f3c2b1a-9e8d-4c7b-a6f5-0e1d2c3b4a59''"

definition sample_events :: collection where
  "sample_events =
     \<lparr>docs = [[''_id'' \<mapsto> Str event_id, ''title'' \<mapsto> Str ''Gym Meetup'',
               ''participants'' \<mapsto> Array []]],
      calls = [],
      fault = (\<lambda>call. None)\<rparr>"

text \<open>
  Two stored profiles and the contexts of update requests. The sample decoder reads every
  field of the struct as a string and rejects a document that holds anything else there.
\<close>

definition alice :: Complejo where
  "alice = \<lparr>ID = alice_id, Username = ''alice'', Password = ''hunter2'', Role = ''user'',
             Weight = ''80'', Height = ''2'', IMC = ''NPC'', Gender = ''female'',
             Bench = '''', Squad = '''', DL = '''', Photo = ''''\<rparr>"

definition root :: Complejo where
  "root = \<lparr>ID = root_id, Username = ''root'', Password = ''toor'', Role = ''admin'',
            Weight = '''', Height = '''', IMC = ''N/A'', Gender = ''male'',
            Bench = '''', Squad = '''', DL = '''', Photo = ''''\<rparr>"

definition empty_collection :: collection where
  "empty_collection = \<lparr>docs = [], calls = [], fault = (\<lambda>call. None)\<rparr>"

definition sample_complejos :: collection where
  "sample_complejos =
     \<lparr>docs = [Complejo_document alice, Complejo_document root], calls = [],
      fault = (\<lambda>call. None)\<rparr>"

definition sample_update :: "M \<Rightarrow> M \<Rightarrow> M gin_context" where
  "sample_update keys payload =
     \<lparr>Keys = keys, Params = [], Header = Map.empty, ShouldBindJSON = Inr payload\<rparr>"


definition string_field :: "M \<Rightarrow> string \<Rightarrow> string" where
  "string_field d k = (case d k of Some (Str s) \<Rightarrow> s | other \<Rightarrow> '''')"

definition sample_decode :: "M \<Rightarrow> string + Complejo" where
  "sample_decode d =
     (if list_all (\<lambda>k. case d k of None \<Rightarrow> True | Some (Str s) \<Rightarrow> True | Some other \<Rightarrow> False)
           [''_id'', ''username'', ''password'', ''role'', ''weight'', ''height'', ''imc'',
            ''gender'', ''bench'', ''squad'', ''dl'', ''photo'']
      then Inr \<lparr>ID = string_field d ''_id'', Username = string_field d ''username'',
                 Password = string_field d ''password'', Role = string_field d ''role'',
                 Weight = string_field d ''weight'', Height = string_field d ''height'',
                 IMC = string_field d ''imc'', Gender = string_field d ''gender'',
                 Bench = string_field d ''bench'', Squad = string_field d ''squad'',
                 DL = string_field d ''dl'', Photo = string_field d ''photo''\<rparr>
      else Inl ''cannot decode into a string type'')"

text \<open>
  The only identity the admin handlers let through carries the literal \<open>_id\<close> as its
  identifier; a collection that stores a document under that identifier.
\<close>

definition literal_id_keys :: M where
  "literal_id_keys = [''_id'' \<mapsto> Str ''_id'', ''username'' \<mapsto> Str ''mallory'', ''role'' \<mapsto> Str ''user'']"

definition literal_id_collection :: collection where
  "literal_id_collection =
     \<lparr>docs = [[''_id'' \<mapsto> Str ''_id'', ''username'' \<mapsto> Str ''nobody'']], calls = [],
      fault = (\<lambda>call. None)\<rparr>"

text \<open>An update request: its path, the token it presents and its decoded body.\<close>

definition sample_put :: "string list \<Rightarrow> string \<Rightarrow> M \<Rightarrow> M request" where
  "sample_put path tok payload =
     \<lparr>req_path = path, req_header = [''Authorization'' \<mapsto> tok], req_body = Inr payload\<rparr>"

section \<open>The IMC classifier: bands\<close>

text \<open>Comparing a float with a positive constant of the source.\<close>

lemma flt_lit:
  "0 < b \<Longrightarrow> flt q (lit b) = (q = Float True Infinity \<or> (\<exists>v. fval q = Some v \<and> v < b))"
proof (cases q)
  case NaN
  then show ?thesis by (simp add: lit_def)
next
  case (Float s m)
  assume b: "0 < b"
  show ?thesis
  proof (cases m)
    case Zero
    with Float b show ?thesis by (simp add: lit_def)
  next
    case (Finite r)
    with Float b show ?thesis by (simp add: lit_def)
  next
    case Infinity
    with Float b show ?thesis by (cases s) (simp_all add: lit_def)
  qed
qed

lemma fge_lit:
  "0 < b \<Longrightarrow> fge q (lit b) = (q = Float False Infinity \<or> (\<exists>v. fval q = Some v \<and> b \<le> v))"
proof (cases q)
  case NaN
  then show ?thesis by (simp add: lit_def)
next
  case (Float s m)
  assume b: "0 < b"
  show ?thesis
  proof (cases m)
    case Zero
    with Float b show ?thesis by (simp add: lit_def)
  next
    case (Finite r)
    with Float b show ?thesis by (simp add: lit_def)
  next
    case Infinity
    with Float b show ?thesis by (cases s) (simp_all add: lit_def)
  qed
qed

lemma flt_fin: "0 < b \<Longrightarrow> fval q = Some v \<Longrightarrow> flt q (lit b) = (v < b)"
  using flt_lit [of b q] by auto

lemma fge_fin: "0 < b \<Longrightarrow> fval q = Some v \<Longrightarrow> fge q (lit b) = (b \<le> v)"
  using fge_lit [of b q] by auto

lemma flt_neg_inf: "0 < b \<Longrightarrow> flt (Float True Infinity) (lit b)"
  by (simp add: flt_lit)

lemma flt_pos_inf: "0 < b \<Longrightarrow> \<not> flt (Float False Infinity) (lit b)"
  by (simp add: flt_lit)

lemma CalcIMC_parsed:
  assumes "weight \<noteq> ''''" "height \<noteq> ''''"
    and "PF weight 32 = Inr w" "PF height 32 = Inr h"
  shows "CalcIMC rnd PF weight height =
     (let calcIMC = fdiv rnd w (fmul rnd h h) in
                if flt calcIMC (lit 18.5) then ''Soldado del Burgo De Los No Muertos''
                else if fge calcIMC (lit 18.5) \<and> flt calcIMC (lit 25) then ''NPC''
                else if fge calcIMC (lit 25) \<and> flt calcIMC (lit 30) then ''Susi Slayer''
                else ''Burger King Slayer'')"
  using assms unfolding CalcIMC_def by simp

lemma CalcIMC_first:
  assumes "weight \<noteq> ''''" "height \<noteq> ''''"
    and "PF weight 32 = Inr w" "PF height 32 = Inr h"
    and "fdiv rnd w (fmul rnd h h) = Float True Infinity
         \<or> (\<exists>v. fval (fdiv rnd w (fmul rnd h h)) = Some v \<and> v < 18.5)"
  shows "CalcIMC rnd PF weight height = ''Soldado del Burgo De Los No Muertos''"
proof -
  have "flt (fdiv rnd w (fmul rnd h h)) (lit 18.5)"
    using assms(5) by (auto simp add: flt_fin flt_neg_inf)
  then show ?thesis
    unfolding CalcIMC_parsed [of weight height PF w h rnd, OF assms(1-4)] Let_def by simp
qed

lemma CalcIMC_second:
  assumes "weight \<noteq> ''''" "height \<noteq> ''''"
    and "PF weight 32 = Inr w" "PF height 32 = Inr h"
    and "fval (fdiv rnd w (fmul rnd h h)) = Some v" "18.5 \<le> v" "v < 25"
  shows "CalcIMC rnd PF weight height = ''NPC''"
  unfolding CalcIMC_parsed [of weight height PF w h rnd, OF assms(1-4)] Let_def
  using assms(5-7) by (simp add: flt_fin fge_fin)

lemma CalcIMC_third:
  assumes "weight \<noteq> ''''" "height \<noteq> ''''"
    and "PF weight 32 = Inr w" "PF height 32 = Inr h"
    and "fval (fdiv rnd w (fmul rnd h h)) = Some v" "25 \<le> v" "v < 30"
  shows "CalcIMC rnd PF weight height = ''Susi Slayer''"
  unfolding CalcIMC_parsed [of weight height PF w h rnd, OF assms(1-4)] Let_def
  using assms(5-7) by (simp add: flt_fin fge_fin)

lemma CalcIMC_fourth:
  assumes "weight \<noteq> ''''" "height \<noteq> ''''"
    and "PF weight 32 = Inr w" "PF height 32 = Inr h"
    and "fdiv rnd w (fmul rnd h h) = Float False Infinity
         \<or> fdiv rnd w (fmul rnd h h) = NaN
         \<or> (\<exists>v. fval (fdiv rnd w (fmul rnd h h)) = Some v \<and> 30 \<le> v)"
  shows "CalcIMC rnd PF weight height = ''Burger King Slayer''"
proof -
  have "\<not> flt (fdiv rnd w (fmul rnd h h)) (lit 18.5)"
    and "\<not> flt (fdiv rnd w (fmul rnd h h)) (lit 25)"
    and "\<not> flt (fdiv rnd w (fmul rnd h h)) (lit 30)"
    using assms(5) by (auto simp add: flt_fin flt_pos_inf)
  then show ?thesis
    unfolding CalcIMC_parsed [of weight height PF w h rnd, OF assms(1-4)] Let_def by simp
qed

lemma quotient_70_0: "fdiv rnd (lit 70) (fmul rnd (lit 0) (lit 0)) = Float False Infinity"
  by (simp add: lit_def)

text \<open>
  Claim C5. \<open>CalcIMC\<close> returns \<open>N/A\<close> when either string is empty; \<open>Invalid input\<close> when both
  are non-empty and either fails to parse; otherwise, with \<open>q\<close> the computed quotient
  \<open>weight / (height * height)\<close>, the first label when \<open>q\<close> is negative infinity or a number below
  18.5, the second for a number in [18.5, 25), the third for a number in [25, 30), and the
  fourth when \<open>q\<close> is a number from 30 on or positive infinity (and also when \<open>q\<close> is NaN, where
  every comparison is false). In particular, when the parser reads \<open>70\<close> and \<open>0\<close> as the floats
  70 and 0, the quotient is positive infinity and the label is the fourth. This holds for every
  rounding function and every parser.
\<close>

theorem CalcIMC_bands:
  "(weight = '''' \<or> height = '''' \<longrightarrow> CalcIMC rnd PF weight height = ''N/A'')
   \<and> (weight \<noteq> '''' \<and> height \<noteq> '''' \<and> (isl (PF weight 32) \<or> isl (PF height 32))
        \<longrightarrow> CalcIMC rnd PF weight height = ''Invalid input'')
   \<and> (weight \<noteq> '''' \<and> height \<noteq> '''' \<and> PF weight 32 = Inr w \<and> PF height 32 = Inr h \<longrightarrow>
        (fdiv rnd w (fmul rnd h h) = Float True Infinity
           \<or> (\<exists>v. fval (fdiv rnd w (fmul rnd h h)) = Some v \<and> v < 18.5)
          \<longrightarrow> CalcIMC rnd PF weight height = ''Soldado del Burgo De Los No Muertos'')
        \<and> ((\<exists>v. fval (fdiv rnd w (fmul rnd h h)) = Some v \<and> 18.5 \<le> v \<and> v < 25)
          \<longrightarrow> CalcIMC rnd PF weight height = ''NPC'')
        \<and> ((\<exists>v. fval (fdiv rnd w (fmul rnd h h)) = Some v \<and> 25 \<le> v \<and> v < 30)
          \<longrightarrow> CalcIMC rnd PF weight height = ''Susi Slayer'')
        \<and> (fdiv rnd w (fmul rnd h h) = Float False Infinity
           \<or> fdiv rnd w (fmul rnd h h) = NaN
           \<or> (\<exists>v. fval (fdiv rnd w (fmul rnd h h)) = Some v \<and> 30 \<le> v)
          \<longrightarrow> CalcIMC rnd PF weight height = ''Burger King Slayer''))
   \<and> (PF ''70'' 32 = Inr (lit 70) \<and> PF ''0'' 32 = Inr (lit 0) \<longrightarrow>
        fdiv rnd (lit 70) (fmul rnd (lit 0) (lit 0)) = Float False Infinity
        \<and> CalcIMC rnd PF ''70'' ''0'' = ''Burger King Slayer'')"
proof (intro conjI impI)
  assume "weight = '''' \<or> height = ''''"
  then show "CalcIMC rnd PF weight height = ''N/A''"
    unfolding CalcIMC_def by simp
next
  assume "weight \<noteq> '''' \<and> height \<noteq> '''' \<and> (isl (PF weight 32) \<or> isl (PF height 32))"
  then show "CalcIMC rnd PF weight height = ''Invalid input''"
    unfolding CalcIMC_def by (auto simp add: isl_def split: sum.splits)
next
  assume "weight \<noteq> '''' \<and> height \<noteq> '''' \<and> PF weight 32 = Inr w \<and> PF height 32 = Inr h"
    and "fdiv rnd w (fmul rnd h h) = Float True Infinity
           \<or> (\<exists>v. fval (fdiv rnd w (fmul rnd h h)) = Some v \<and> v < 18.5)"
  then show "CalcIMC rnd PF weight height = ''Soldado del Burgo De Los No Muertos''"
    using CalcIMC_first [of weight height PF w h rnd] by blast
next
  assume "weight \<noteq> '''' \<and> height \<noteq> '''' \<and> PF weight 32 = Inr w \<and> PF height 32 = Inr h"
    and "\<exists>v. fval (fdiv rnd w (fmul rnd h h)) = Some v \<and> 18.5 \<le> v \<and> v < 25"
  then show "CalcIMC rnd PF weight height = ''NPC''"
    using CalcIMC_second [of weight height PF w h rnd] by blast
next
  assume "weight \<noteq> '''' \<and> height \<noteq> '''' \<and> PF weight 32 = Inr w \<and> PF height 32 = Inr h"
    and "\<exists>v. fval (fdiv rnd w (fmul rnd h h)) = Some v \<and> 25 \<le> v \<and> v < 30"
  then show "CalcIMC rnd PF weight height = ''Susi Slayer''"
    using CalcIMC_third [of weight height PF w h rnd] by blast
next
  assume "weight \<noteq> '''' \<and> height \<noteq> '''' \<and> PF weight 32 = Inr w \<and> PF height 32 = Inr h"
    and "fdiv rnd w (fmul rnd h h) = Float False Infinity
           \<or> fdiv rnd w (fmul rnd h h) = NaN
           \<or> (\<exists>v. fval (fdiv rnd w (fmul rnd h h)) = Some v \<and> 30 \<le> v)"
  then show "CalcIMC rnd PF weight height = ''Burger King Slayer''"
    using CalcIMC_fourth [of weight height PF w h rnd] by blast
next
  show "fdiv rnd (lit 70) (fmul rnd (lit 0) (lit 0)) = Float False Infinity"
    by (rule quotient_70_0)
next
  assume pf: "PF ''70'' 32 = Inr (lit 70) \<and> PF ''0'' 32 = Inr (lit 0)"
  have "CalcIMC rnd PF ''70'' ''0'' = ''Burger King Slayer''"
    using CalcIMC_fourth [of "''70''" "''0''" PF "lit 70" "lit 0" rnd] pf quotient_70_0 [of rnd]
    by simp
  then show "CalcIMC rnd PF ''70'' ''0'' = ''Burger King Slayer''" .
qed

text \<open>The seven cases of the theorem, each on a sample input.\<close>

theorem CalcIMC_bands_witness:
  "CalcIMC Finite sample_ParseFloat '''' ''2'' = ''N/A''
   \<and> CalcIMC Finite sample_ParseFloat ''abc'' ''2'' = ''Invalid input''
   \<and> CalcIMC Finite sample_ParseFloat ''72'' ''2'' = ''Soldado del Burgo De Los No Muertos''
   \<and> CalcIMC Finite sample_ParseFloat ''80'' ''2'' = ''NPC''
   \<and> CalcIMC Finite sample_ParseFloat ''108'' ''2'' = ''Susi Slayer''
   \<and> CalcIMC Finite sample_ParseFloat ''128'' ''2'' = ''Burger King Slayer''
   \<and> CalcIMC Finite sample_ParseFloat ''70'' ''0'' = ''Burger King Slayer''"
proof (intro conjI)
  show "CalcIMC Finite sample_ParseFloat '''' ''2'' = ''N/A''"
    using CalcIMC_bands [of "''''" "''2''" Finite sample_ParseFloat] by simp
  show "CalcIMC Finite sample_ParseFloat ''abc'' ''2'' = ''Invalid input''"
    using CalcIMC_bands [of "''abc''" "''2''" Finite sample_ParseFloat]
    by (simp add: sample_ParseFloat_def)
  show "CalcIMC Finite sample_ParseFloat ''72'' ''2'' = ''Soldado del Burgo De Los No Muertos''"
    using CalcIMC_bands [of "''72''" "''2''" Finite sample_ParseFloat "lit 72" "lit 2"]
    by (simp add: sample_ParseFloat_def lit_def)
  show "CalcIMC Finite sample_ParseFloat ''80'' ''2'' = ''NPC''"
    using CalcIMC_bands [of "''80''" "''2''" Finite sample_ParseFloat "lit 80" "lit 2"]
    by (simp add: sample_ParseFloat_def lit_def)
  show "CalcIMC Finite sample_ParseFloat ''108'' ''2'' = ''Susi Slayer''"
    using CalcIMC_bands [of "''108''" "''2''" Finite sample_ParseFloat "lit 108" "lit 2"]
    by (simp add: sample_ParseFloat_def lit_def)
  show "CalcIMC Finite sample_ParseFloat ''128'' ''2'' = ''Burger King Slayer''"
    using CalcIMC_bands [of "''128''" "''2''" Finite sample_ParseFloat "lit 128" "lit 2"]
    by (simp add: sample_ParseFloat_def lit_def)
  show "CalcIMC Finite sample_ParseFloat ''70'' ''0'' = ''Burger King Slayer''"
    using CalcIMC_bands [of _ _ Finite sample_ParseFloat]
    by (simp add: sample_ParseFloat_def)
qed

section \<open>The authentication middleware: order of the checks\<close>

lemma jwt_Parse_keyFunc:
  "jwt_Parse lib s (keyFunc k) =
     (case decode_segments lib s of
        None \<Rightarrow> Inl ''token is malformed''
      | Some (m, cl) \<Rightarrow>
          (case m of
             SigningMethodOther alg \<Rightarrow> Inl (''token is unverifiable: '' @ ''signature is invalid'')
           | SigningMethodHMAC alg \<Rightarrow>
               (if \<not> verify_signature lib m k s then Inl ''signature is invalid''
                else if \<not> validate_claims lib cl then Inl ''token has invalid claims''
                else Inr \<lparr>Method = m, Claims = MapClaims cl, Valid = True\<rparr>)))"
  by (simp add: jwt_Parse_def keyFunc_def NewWithClaims_def Let_def
      split: option.splits prod.splits SigningMethod.splits)

lemma jwt_Parse_Inr:
  "(jwt_Parse lib s (keyFunc k) = Inr tok) =
   (\<exists>alg cl. decode_segments lib s = Some (SigningMethodHMAC alg, cl)
      \<and> verify_signature lib (SigningMethodHMAC alg) k s \<and> validate_claims lib cl
      \<and> tok = \<lparr>Method = SigningMethodHMAC alg, Claims = MapClaims cl, Valid = True\<rparr>)"
  unfolding jwt_Parse_keyFunc
  by (auto split: option.splits prod.splits SigningMethod.splits)

lemma string_claim_Some: "string_claim (Some (Str s)) = (s, True)"
  by (simp add: string_claim_def)

lemma string_claim_bad:
  "\<not> (\<exists>s. v = Some (Str s) \<and> s \<noteq> '''') \<Longrightarrow> string_claim v = (s, ok) \<Longrightarrow> \<not> ok \<or> s = ''''"
  by (auto simp add: string_claim_def split: option.splits any.splits)

lemma AuthMiddleware_no_header:
  "GetHeader c ''Authorization'' = '''' \<Longrightarrow>
   AuthMiddleware lib k c =
     Abort (JSON 401 [''status'' \<mapsto> Str ''error'',
                      ''message'' \<mapsto> Str ''Authorization token is required''])"
  by (simp add: AuthMiddleware_def)

lemma AuthMiddleware_parse_error:
  "GetHeader c ''Authorization'' \<noteq> '''' \<Longrightarrow>
   jwt_Parse lib (GetHeader c ''Authorization'') (keyFunc k) = Inl e \<Longrightarrow>
   AuthMiddleware lib k c =
     Abort (JSON 401 [''status'' \<mapsto> Str ''error'',
                      ''message'' \<mapsto> Str ''Invalid or expired token''])"
  by (simp add: AuthMiddleware_def)

lemma AuthMiddleware_parsed:
  assumes "GetHeader c ''Authorization'' \<noteq> ''''"
    and "jwt_Parse lib (GetHeader c ''Authorization'') (keyFunc k) = Inr tok"
    and "Claims tok = MapClaims claims"
  shows "AuthMiddleware lib k c =
          (let (role, roleOk) = string_claim (claims ''role'');
               (username, usernameOk) = string_claim (claims ''username'');
               (id', idOk) = string_claim (claims ''_id'')
           in
           if \<not> roleOk \<or> role = '''' then
             Abort (JSON 403 [''status'' \<mapsto> Str ''error'',
                              ''message'' \<mapsto> Str ''Role is missing or invalid in the token''])
           else if \<not> usernameOk \<or> username = '''' then
             Abort (JSON 403 [''status'' \<mapsto> Str ''error'',
                              ''message'' \<mapsto> Str ''Username is missing or invalid in the token''])
           else if \<not> idOk \<or> id' = '''' then
             Abort (JSON 403 [''status'' \<mapsto> Str ''error'',
                              ''message'' \<mapsto> Str ''User ID is missing or invalid in the token''])
           else
             Next (SetContextValues c
                     [''_id'' \<mapsto> Str id', ''username'' \<mapsto> Str username,
                      ''role'' \<mapsto> Str role]))"
proof -
  have "Valid tok"
    using assms(2) by (auto simp add: jwt_Parse_Inr)
  then show ?thesis
    using assms by (simp add: AuthMiddleware_def)
qed


lemma AuthMiddleware_rejected_token:
  assumes "GetHeader c ''Authorization'' = s" and "s \<noteq> ''''"
    and "decode_segments lib s = None
         \<or> (\<exists>alg cl. decode_segments lib s = Some (SigningMethodOther alg, cl))
         \<or> (\<exists>alg cl. decode_segments lib s = Some (SigningMethodHMAC alg, cl)
               \<and> \<not> verify_signature lib (SigningMethodHMAC alg) k s)
         \<or> (\<exists>alg cl. decode_segments lib s = Some (SigningMethodHMAC alg, cl)
               \<and> \<not> validate_claims lib cl)"
  shows "AuthMiddleware lib k c =
     Abort (JSON 401 [''status'' \<mapsto> Str ''error'',
                      ''message'' \<mapsto> Str ''Invalid or expired token''])"
proof -
  have "\<exists>e. jwt_Parse lib s (keyFunc k) = Inl e"
    using assms(3) unfolding jwt_Parse_keyFunc by auto
  then show ?thesis
    using assms(1,2) AuthMiddleware_parse_error [of c lib k] by auto
qed

lemma AuthMiddleware_accepted:
  assumes "GetHeader c ''Authorization'' = s" and "s \<noteq> ''''"
    and "decode_segments lib s = Some (SigningMethodHMAC alg, cl)"
    and "verify_signature lib (SigningMethodHMAC alg) k s"
    and "validate_claims lib cl"
  shows "AuthMiddleware lib k c =
          (let (role, roleOk) = string_claim (cl ''role'');
               (username, usernameOk) = string_claim (cl ''username'');
               (id', idOk) = string_claim (cl ''_id'')
           in
           if \<not> roleOk \<or> role = '''' then
             Abort (JSON 403 [''status'' \<mapsto> Str ''error'',
                              ''message'' \<mapsto> Str ''Role is missing or invalid in the token''])
           else if \<not> usernameOk \<or> username = '''' then
             Abort (JSON 403 [''status'' \<mapsto> Str ''error'',
                              ''message'' \<mapsto> Str ''Username is missing or invalid in the token''])
           else if \<not> idOk \<or> id' = '''' then
             Abort (JSON 403 [''status'' \<mapsto> Str ''error'',
                              ''message'' \<mapsto> Str ''User ID is missing or invalid in the token''])
           else
             Next (SetContextValues c
                     [''_id'' \<mapsto> Str id', ''username'' \<mapsto> Str username,
                      ''role'' \<mapsto> Str role]))"
proof -
  have "jwt_Parse lib (GetHeader c ''Authorization'') (keyFunc k) =
          Inr \<lparr>Method = SigningMethodHMAC alg, Claims = MapClaims cl, Valid = True\<rparr>"
    using assms by (simp add: jwt_Parse_Inr)
  then show ?thesis
    using assms(1,2)
      AuthMiddleware_parsed [of c lib k
        "\<lparr>Method = SigningMethodHMAC alg, Claims = MapClaims cl, Valid = True\<rparr>" cl]
    by simp
qed

lemma AuthMiddleware_claim_missing:
  assumes "GetHeader c ''Authorization'' = s" and "s \<noteq> ''''"
    and "decode_segments lib s = Some (SigningMethodHMAC alg, cl)"
    and "verify_signature lib (SigningMethodHMAC alg) k s"
    and "validate_claims lib cl"
    and "\<not> (\<exists>v. cl ''role'' = Some (Str v) \<and> v \<noteq> '''')
         \<or> \<not> (\<exists>v. cl ''username'' = Some (Str v) \<and> v \<noteq> '''')
         \<or> \<not> (\<exists>v. cl ''_id'' = Some (Str v) \<and> v \<noteq> '''')"
  shows "\<exists>r. AuthMiddleware lib k c = Abort r \<and> http_status r = 403"
proof -
  obtain role roleOk where r: "string_claim (cl ''role'') = (role, roleOk)"
    by (cases "string_claim (cl ''role'')")
  obtain username usernameOk where u: "string_claim (cl ''username'') = (username, usernameOk)"
    by (cases "string_claim (cl ''username'')")
  obtain id' idOk where i: "string_claim (cl ''_id'') = (id', idOk)"
    by (cases "string_claim (cl ''_id'')")
  have bad: "(\<not> roleOk \<or> role = '''') \<or> (\<not> usernameOk \<or> username = '''') \<or> (\<not> idOk \<or> id' = '''')"
    using assms(6) string_claim_bad [OF _ r] string_claim_bad [OF _ u] string_claim_bad [OF _ i]
    by blast
  show ?thesis
    unfolding AuthMiddleware_accepted [OF assms(1-5)] r u i
    using bad by (auto simp add: JSON_def)
qed

lemma AuthMiddleware_pass:
  assumes "GetHeader c ''Authorization'' = s" and "s \<noteq> ''''"
    and "decode_segments lib s = Some (SigningMethodHMAC alg, cl)"
    and "verify_signature lib (SigningMethodHMAC alg) k s"
    and "validate_claims lib cl"
    and "cl ''role'' = Some (Str role)" and "role \<noteq> ''''"
    and "cl ''username'' = Some (Str username)" and "username \<noteq> ''''"
    and "cl ''_id'' = Some (Str id')" and "id' \<noteq> ''''"
  shows "AuthMiddleware lib k c =
           Next (c\<lparr>Keys := Keys c ++ [''_id'' \<mapsto> Str id', ''username'' \<mapsto> Str username,
                                      ''role'' \<mapsto> Str role]\<rparr>)"
  unfolding AuthMiddleware_accepted [OF assms(1-5)]
  using assms(6-11) by (simp add: string_claim_Some SetContextValues_def)

lemma AuthMiddleware_403_parsed:
  assumes "AuthMiddleware lib k c = Abort r" and "http_status r = 403"
  shows "\<exists>tok. jwt_Parse lib (GetHeader c ''Authorization'') (keyFunc k) = Inr tok \<and> Valid tok
               \<and> GetHeader c ''Authorization'' \<noteq> ''''"
proof (cases "GetHeader c ''Authorization'' = ''''")
  case True
  then show ?thesis
    using assms AuthMiddleware_no_header [of c lib k] by (auto simp add: JSON_def)
next
  case False
  show ?thesis
  proof (cases "jwt_Parse lib (GetHeader c ''Authorization'') (keyFunc k)")
    case (Inl e)
    then show ?thesis
      using assms False AuthMiddleware_parse_error [of c lib k e] by (auto simp add: JSON_def)
  next
    case (Inr tok)
    then have "Valid tok" by (auto simp add: jwt_Parse_Inr)
    with Inr False show ?thesis by simp
  qed
qed

lemma with_auth_Next: "AuthMiddleware lib k c = Next c' \<Longrightarrow> with_auth lib k handler coll c = handler coll c'"
  by (simp add: with_auth_def)

lemma with_auth_Abort: "AuthMiddleware lib k c = Abort r \<Longrightarrow> with_auth lib k handler coll c = (r, coll)"
  by (simp add: with_auth_def)

text \<open>
  Claim C3. The middleware checks in this order: a missing (or empty) \<open>Authorization\<close> header
  is answered 401; a token that is malformed, names a signing method outside the HMAC family,
  fails signature verification under the service's secret or fails the library's validation is
  answered 401, whatever its claims are; a token that passed all of that and lacks one of the
  claims \<open>role\<close>, \<open>username\<close>, \<open>_id\<close> as a non-empty string is answered 403; otherwise the three
  claim values are stored in the context under those keys and the next handler runs on that
  context. A 403 from the middleware is only ever given to a token that parsed as valid, and
  after an abort no further handler runs.
\<close>

theorem AuthMiddleware_order:
  "(GetHeader c ''Authorization'' = '''' \<longrightarrow>
      AuthMiddleware lib k c =
        Abort (JSON 401 [''status'' \<mapsto> Str ''error'',
                         ''message'' \<mapsto> Str ''Authorization token is required'']))
   \<and> (GetHeader c ''Authorization'' = s \<and> s \<noteq> ''''
        \<and> (decode_segments lib s = None
            \<or> (\<exists>a m. decode_segments lib s = Some (SigningMethodOther a, m))
            \<or> (\<exists>a m. decode_segments lib s = Some (SigningMethodHMAC a, m)
                  \<and> \<not> verify_signature lib (SigningMethodHMAC a) k s)
            \<or> (\<exists>a m. decode_segments lib s = Some (SigningMethodHMAC a, m)
                  \<and> \<not> validate_claims lib m)) \<longrightarrow>
      AuthMiddleware lib k c =
        Abort (JSON 401 [''status'' \<mapsto> Str ''error'',
                         ''message'' \<mapsto> Str ''Invalid or expired token'']))
   \<and> (GetHeader c ''Authorization'' = s \<and> s \<noteq> ''''
        \<and> decode_segments lib s = Some (SigningMethodHMAC alg, cl)
        \<and> verify_signature lib (SigningMethodHMAC alg) k s \<and> validate_claims lib cl
        \<and> (\<not> (\<exists>v. cl ''role'' = Some (Str v) \<and> v \<noteq> '''')
            \<or> \<not> (\<exists>v. cl ''username'' = Some (Str v) \<and> v \<noteq> '''')
            \<or> \<not> (\<exists>v. cl ''_id'' = Some (Str v) \<and> v \<noteq> '''')) \<longrightarrow>
      (\<exists>r. AuthMiddleware lib k c = Abort r \<and> http_status r = 403))
   \<and> (GetHeader c ''Authorization'' = s \<and> s \<noteq> ''''
        \<and> decode_segments lib s = Some (SigningMethodHMAC alg, cl)
        \<and> verify_signature lib (SigningMethodHMAC alg) k s \<and> validate_claims lib cl
        \<and> cl ''role'' = Some (Str role) \<and> role \<noteq> ''''
        \<and> cl ''username'' = Some (Str username) \<and> username \<noteq> ''''
        \<and> cl ''_id'' = Some (Str id') \<and> id' \<noteq> '''' \<longrightarrow>
      AuthMiddleware lib k c =
        Next (c\<lparr>Keys := Keys c ++ [''_id'' \<mapsto> Str id', ''username'' \<mapsto> Str username,
                                   ''role'' \<mapsto> Str role]\<rparr>))
   \<and> (AuthMiddleware lib k c = Abort r \<and> http_status r = 403 \<longrightarrow>
        (\<exists>tok. jwt_Parse lib (GetHeader c ''Authorization'') (keyFunc k) = Inr tok \<and> Valid tok
               \<and> GetHeader c ''Authorization'' \<noteq> ''''))
   \<and> (AuthMiddleware lib k c = Abort r \<longrightarrow> with_auth lib k handler coll c = (r, coll))
   \<and> (AuthMiddleware lib k c = Next c' \<longrightarrow> with_auth lib k handler coll c = handler coll c')"
proof (intro conjI impI)
  assume "GetHeader c ''Authorization'' = ''''"
  then show "AuthMiddleware lib k c =
        Abort (JSON 401 [''status'' \<mapsto> Str ''error'',
                         ''message'' \<mapsto> Str ''Authorization token is required''])"
    by (rule AuthMiddleware_no_header)
next
  assume "GetHeader c ''Authorization'' = s \<and> s \<noteq> ''''
        \<and> (decode_segments lib s = None
            \<or> (\<exists>a m. decode_segments lib s = Some (SigningMethodOther a, m))
            \<or> (\<exists>a m. decode_segments lib s = Some (SigningMethodHMAC a, m)
                  \<and> \<not> verify_signature lib (SigningMethodHMAC a) k s)
            \<or> (\<exists>a m. decode_segments lib s = Some (SigningMethodHMAC a, m)
                  \<and> \<not> validate_claims lib m))"
  then show "AuthMiddleware lib k c =
        Abort (JSON 401 [''status'' \<mapsto> Str ''error'',
                         ''message'' \<mapsto> Str ''Invalid or expired token''])"
    using AuthMiddleware_rejected_token [of c s lib k] by blast
next
  assume "GetHeader c ''Authorization'' = s \<and> s \<noteq> ''''
        \<and> decode_segments lib s = Some (SigningMethodHMAC alg, cl)
        \<and> verify_signature lib (SigningMethodHMAC alg) k s \<and> validate_claims lib cl
        \<and> (\<not> (\<exists>v. cl ''role'' = Some (Str v) \<and> v \<noteq> '''')
            \<or> \<not> (\<exists>v. cl ''username'' = Some (Str v) \<and> v \<noteq> '''')
            \<or> \<not> (\<exists>v. cl ''_id'' = Some (Str v) \<and> v \<noteq> ''''))"
  then show "\<exists>r. AuthMiddleware lib k c = Abort r \<and> http_status r = 403"
    using AuthMiddleware_claim_missing [of c s lib alg cl k] by blast
next
  assume "GetHeader c ''Authorization'' = s \<and> s \<noteq> ''''
        \<and> decode_segments lib s = Some (SigningMethodHMAC alg, cl)
        \<and> verify_signature lib (SigningMethodHMAC alg) k s \<and> validate_claims lib cl
        \<and> cl ''role'' = Some (Str role) \<and> role \<noteq> ''''
        \<and> cl ''username'' = Some (Str username) \<and> username \<noteq> ''''
        \<and> cl ''_id'' = Some (Str id') \<and> id' \<noteq> ''''"
  then show "AuthMiddleware lib k c =
        Next (c\<lparr>Keys := Keys c ++ [''_id'' \<mapsto> Str id', ''username'' \<mapsto> Str username,
                                   ''role'' \<mapsto> Str role]\<rparr>)"
    using AuthMiddleware_pass [of c s lib alg cl k role username id'] by blast
next
  assume "AuthMiddleware lib k c = Abort r \<and> http_status r = 403"
  then show "\<exists>tok. jwt_Parse lib (GetHeader c ''Authorization'') (keyFunc k) = Inr tok \<and> Valid tok
               \<and> GetHeader c ''Authorization'' \<noteq> ''''"
    using AuthMiddleware_403_parsed [of lib k c r] by blast
next
  assume "AuthMiddleware lib k c = Abort r"
  then show "with_auth lib k handler coll c = (r, coll)"
    by (rule with_auth_Abort)
next
  assume "AuthMiddleware lib k c = Next c'"
  then show "with_auth lib k handler coll c = handler coll c'"
    by (rule with_auth_Next)
qed

text \<open>The outcomes on the sample tokens.\<close>

theorem AuthMiddleware_order_witness:
  "AuthMiddleware sample_lib sample_secret (sample_context Map.empty) =
     Abort (JSON 401 [''status'' \<mapsto> Str ''error'',
                      ''message'' \<mapsto> Str ''Authorization token is required''])
   \<and> AuthMiddleware sample_lib sample_secret (sample_context [''Authorization'' \<mapsto> ''garbage'']) =
     Abort (JSON 401 [''status'' \<mapsto> Str ''error'',
                      ''message'' \<mapsto> Str ''Invalid or expired token''])
   \<and> AuthMiddleware sample_lib sample_secret (sample_context [''Authorization'' \<mapsto> ''tok.none'']) =
     Abort (JSON 401 [''status'' \<mapsto> Str ''error'',
                      ''message'' \<mapsto> Str ''Invalid or expired token''])
   \<and> AuthMiddleware sample_lib ''other secret'' (sample_context [''Authorization'' \<mapsto> ''tok.alice'']) =
     Abort (JSON 401 [''status'' \<mapsto> Str ''error'',
                      ''message'' \<mapsto> Str ''Invalid or expired token''])
   \<and> (\<exists>r. AuthMiddleware sample_lib sample_secret
              (sample_context [''Authorization'' \<mapsto> ''tok.norole'']) = Abort r
          \<and> http_status r = 403)
   \<and> AuthMiddleware sample_lib sample_secret (sample_context [''Authorization'' \<mapsto> ''tok.alice'']) =
     Next ((sample_context [''Authorization'' \<mapsto> ''tok.alice''])
             \<lparr>Keys := [''_id'' \<mapsto> Str alice_id, ''username'' \<mapsto> Str ''alice'',
                        ''role'' \<mapsto> Str ''user'']\<rparr>)"
proof (intro conjI)
  show "AuthMiddleware sample_lib sample_secret (sample_context Map.empty) =
     Abort (JSON 401 [''status'' \<mapsto> Str ''error'',
                      ''message'' \<mapsto> Str ''Authorization token is required''])"
    using AuthMiddleware_order [where c = "sample_context Map.empty" and lib = sample_lib
        and k = sample_secret]
    by (simp add: GetHeader_def sample_context_def)
  show "AuthMiddleware sample_lib sample_secret (sample_context [''Authorization'' \<mapsto> ''garbage'']) =
     Abort (JSON 401 [''status'' \<mapsto> Str ''error'',
                      ''message'' \<mapsto> Str ''Invalid or expired token''])"
    using AuthMiddleware_order [where c = "sample_context [''Authorization'' \<mapsto> ''garbage'']"
        and lib = sample_lib and k = sample_secret and s = "''garbage''"]
    by (simp add: GetHeader_def sample_context_def sample_lib_def)
  show "AuthMiddleware sample_lib sample_secret (sample_context [''Authorization'' \<mapsto> ''tok.none'']) =
     Abort (JSON 401 [''status'' \<mapsto> Str ''error'',
                      ''message'' \<mapsto> Str ''Invalid or expired token''])"
    using AuthMiddleware_order [where c = "sample_context [''Authorization'' \<mapsto> ''tok.none'']"
        and lib = sample_lib and k = sample_secret and s = "''tok.none''"]
    by (simp add: GetHeader_def sample_context_def sample_lib_def)
  show "AuthMiddleware sample_lib ''other secret'' (sample_context [''Authorization'' \<mapsto> ''tok.alice'']) =
     Abort (JSON 401 [''status'' \<mapsto> Str ''error'',
                      ''message'' \<mapsto> Str ''Invalid or expired token''])"
    using AuthMiddleware_order [where c = "sample_context [''Authorization'' \<mapsto> ''tok.alice'']"
        and lib = sample_lib and k = "''other secret''" and s = "''tok.alice''"]
    by (simp add: GetHeader_def sample_context_def sample_lib_def sample_secret_def
        SigningMethodHS256_def)
  show "\<exists>r. AuthMiddleware sample_lib sample_secret
              (sample_context [''Authorization'' \<mapsto> ''tok.norole'']) = Abort r
          \<and> http_status r = 403"
    using AuthMiddleware_order [where c = "sample_context [''Authorization'' \<mapsto> ''tok.norole'']"
        and lib = sample_lib and k = sample_secret and s = "''tok.norole''" and alg = "''HS256''"
        and cl = "[''_id'' \<mapsto> Str alice_id, ''username'' \<mapsto> Str ''alice'']"]
    by (simp add: GetHeader_def sample_context_def sample_lib_def SigningMethodHS256_def)
  show "AuthMiddleware sample_lib sample_secret (sample_context [''Authorization'' \<mapsto> ''tok.alice'']) =
     Next ((sample_context [''Authorization'' \<mapsto> ''tok.alice''])
             \<lparr>Keys := [''_id'' \<mapsto> Str alice_id, ''username'' \<mapsto> Str ''alice'',
                        ''role'' \<mapsto> Str ''user'']\<rparr>)"
    using AuthMiddleware_order [where c = "sample_context [''Authorization'' \<mapsto> ''tok.alice'']"
        and lib = sample_lib and k = sample_secret and s = "''tok.alice''" and alg = "''HS256''"
        and cl = alice_claims and role = "''user''" and username = "''alice''" and id' = alice_id]
    by (simp add: GetHeader_def sample_context_def sample_lib_def SigningMethodHS256_def
        alice_claims_def alice_id_def)
qed

section \<open>Subscribing and unsubscribing\<close>

subsection \<open>The store and the middleware, as the handlers see them\<close>

lemma update_first_no_match:
  "list_all (\<lambda>d. \<not> matches q d) ds \<Longrightarrow>
   update_first q u ds = Inr (ds, \<lparr>MatchedCount = 0, ModifiedCount = 0\<rparr>)"
  by (induction ds) simp_all

lemma UpdateOne_fault:
  "fault coll (UpdateOne_call q u) = Some e \<Longrightarrow>
   UpdateOne coll q u = (Inl e, coll\<lparr>calls := calls coll @ [UpdateOne_call q u]\<rparr>)"
  by (simp add: UpdateOne_def)

lemma UpdateOne_no_match:
  "fault coll (UpdateOne_call q u) = None \<Longrightarrow> list_all (\<lambda>d. \<not> matches q d) (docs coll) \<Longrightarrow>
   UpdateOne coll q u =
     (Inr \<lparr>MatchedCount = 0, ModifiedCount = 0\<rparr>, coll\<lparr>calls := calls coll @ [UpdateOne_call q u]\<rparr>)"
  by (simp add: UpdateOne_def update_first_no_match)

lemma no_empty_id_no_match:
  "list_all (\<lambda>d. d ''_id'' \<noteq> Some (Str '''')) ds \<Longrightarrow>
   list_all (\<lambda>d. \<not> matches [(''_id'', Str '''')] d) ds"
  by (induction ds) (simp_all add: matches_def)

lemma string_claim_True: "string_claim v = (s, True) \<Longrightarrow> v = Some (Str s)"
  by (auto simp add: string_claim_def split: option.splits any.splits)

lemma AuthMiddleware_cases:
  "(\<exists>r. AuthMiddleware lib k c = Abort r \<and> (http_status r = 401 \<or> http_status r = 403))
   \<or> (\<exists>alg cl role username id'.
         GetHeader c ''Authorization'' \<noteq> ''''
         \<and> decode_segments lib (GetHeader c ''Authorization'') = Some (SigningMethodHMAC alg, cl)
         \<and> cl ''role'' = Some (Str role) \<and> cl ''username'' = Some (Str username)
         \<and> cl ''_id'' = Some (Str id') \<and> username \<noteq> ''''
         \<and> AuthMiddleware lib k c =
             Next (c\<lparr>Keys := Keys c ++ [''_id'' \<mapsto> Str id', ''username'' \<mapsto> Str username,
                                        ''role'' \<mapsto> Str role]\<rparr>))"
proof (cases "GetHeader c ''Authorization'' = ''''")
  case True
  then show ?thesis
    by (simp add: AuthMiddleware_no_header JSON_def)
next
  case False
  show ?thesis
  proof (cases "jwt_Parse lib (GetHeader c ''Authorization'') (keyFunc k)")
    case (Inl e)
    then show ?thesis
      using False by (simp add: AuthMiddleware_parse_error [of c lib k e] JSON_def)
  next
    case (Inr tok)
    then obtain alg cl where d: "decode_segments lib (GetHeader c ''Authorization'') = Some (SigningMethodHMAC alg, cl)"
      and v: "verify_signature lib (SigningMethodHMAC alg) k (GetHeader c ''Authorization'')"
      and w: "validate_claims lib cl"
      by (auto simp add: jwt_Parse_Inr)
    obtain role roleOk where r: "string_claim (cl ''role'') = (role, roleOk)"
      by (cases "string_claim (cl ''role'')")
    obtain username usernameOk where u: "string_claim (cl ''username'') = (username, usernameOk)"
      by (cases "string_claim (cl ''username'')")
    obtain id' idOk where i: "string_claim (cl ''_id'') = (id', idOk)"
      by (cases "string_claim (cl ''_id'')")
    note acc = AuthMiddleware_accepted [OF refl False d v w, unfolded r u i]
    show ?thesis
    proof (cases "roleOk \<and> role \<noteq> '''' \<and> usernameOk \<and> username \<noteq> '''' \<and> idOk \<and> id' \<noteq> ''''")
      case True
      then have "cl ''role'' = Some (Str role)" "cl ''username'' = Some (Str username)"
        "cl ''_id'' = Some (Str id')"
        using r u i string_claim_True by auto
      moreover have "AuthMiddleware lib k c =
             Next (c\<lparr>Keys := Keys c ++ [''_id'' \<mapsto> Str id', ''username'' \<mapsto> Str username,
                                        ''role'' \<mapsto> Str role]\<rparr>)"
        using True acc by (simp add: SetContextValues_def)
      ultimately show ?thesis
        using False d True by blast
    next
      case no: False
      then have "\<exists>r. AuthMiddleware lib k c = Abort r \<and> http_status r = 403"
        using acc by (auto simp add: JSON_def)
      then show ?thesis by blast
    qed
  qed
qed

text \<open>The sample tokens of alice and of root pass the middleware.\<close>

lemma sample_token_alice:
  "GetHeader c ''Authorization'' = ''tok.alice'' \<Longrightarrow>
   AuthMiddleware sample_lib sample_secret c = Next (c\<lparr>Keys := Keys c ++ alice_claims\<rparr>)"
  using AuthMiddleware_pass [where c = c and lib = sample_lib and k = sample_secret
        and s = "''tok.alice''" and alg = "''HS256''" and cl = alice_claims
        and role = "''user''" and username = "''alice''" and id' = alice_id]
  by (simp add: sample_lib_def SigningMethodHS256_def alice_claims_def alice_id_def)

lemma sample_token_root:
  "GetHeader c ''Authorization'' = ''tok.root'' \<Longrightarrow>
   AuthMiddleware sample_lib sample_secret c = Next (c\<lparr>Keys := Keys c ++ root_claims\<rparr>)"
  using AuthMiddleware_pass [where c = c and lib = sample_lib and k = sample_secret
        and s = "''tok.root''" and alg = "''HS256''" and cl = root_claims
        and role = "''admin''" and username = "''root''" and id' = root_id]
  by (simp add: sample_lib_def SigningMethodHS256_def root_claims_def root_id_def)

lemma req_path_put: "req_path (sample_put path tok payload) = path"
  by (simp add: sample_put_def)

lemma put_context_alice:
  "AuthMiddleware sample_lib sample_secret (new_context [] (sample_put path ''tok.alice'' payload)) =
     Next ((sample_update alice_claims payload)\<lparr>Header := [''Authorization'' \<mapsto> ''tok.alice'']\<rparr>)"
  using sample_token_alice [of "new_context [] (sample_put path ''tok.alice'' payload)"]
  by (simp add: GetHeader_def new_context_def sample_put_def sample_update_def)

lemma put_context_root:
  "AuthMiddleware sample_lib sample_secret (new_context [] (sample_put path ''tok.root'' payload)) =
     Next ((sample_update root_claims payload)\<lparr>Header := [''Authorization'' \<mapsto> ''tok.root'']\<rparr>)"
  using sample_token_root [of "new_context [] (sample_put path ''tok.root'' payload)"]
  by (simp add: GetHeader_def new_context_def sample_put_def sample_update_def)

subsection \<open>The username guard\<close>

lemma SubscribeEvent_forbidden:
  "Keys c ''username'' = None \<or> Keys c ''username'' = Some (Str ''username'') \<Longrightarrow>
   SubscribeEvent coll c =
     (JSON 403 [''status'' \<mapsto> Str ''error'', ''code'' \<mapsto> Number 403,
                ''message'' \<mapsto> Str ''You do not have a valid username.''], coll)"
  by (auto simp add: SubscribeEvent_def Get_def)

lemma UnsuscribeEvent_forbidden:
  "Keys c ''username'' = None \<or> Keys c ''username'' = Some (Str ''username'') \<Longrightarrow>
   UnsuscribeEvent coll c =
     (JSON 403 [''status'' \<mapsto> Str ''error'', ''code'' \<mapsto> Number 403,
                ''message'' \<mapsto> Str ''You do not have a valid username.''], coll)"
  by (auto simp add: UnsuscribeEvent_def Get_def)

lemma SubscribeEvent_allowed:
  assumes "Keys c ''username'' = Some u" and "u \<noteq> Str ''username''"
  shows "SubscribeEvent coll c =
     (case UpdateOne coll [(''_id'', Str (Param c ''_id''))] (Op_addToSet ''participants'' u) of
           (Inl err, coll') \<Rightarrow>
             (JSON 500 [''status'' \<mapsto> Str ''error'',
                        ''message'' \<mapsto> Str (''Failed to subscribe to the event: '' @ err)], coll')
         | (Inr result, coll') \<Rightarrow>
             (if MatchedCount result = 0 then
                (JSON 404 [''status'' \<mapsto> Str ''error'',
                           ''message'' \<mapsto> Str ''Event not found''], coll')
              else if ModifiedCount result = 0 then
                (JSON 409 [''status'' \<mapsto> Str ''error'',
                           ''message'' \<mapsto> Str ''Complejo is already subscribed to the event.''], coll')
              else
                (JSON 200 [''status'' \<mapsto> Str ''success'',
                           ''message'' \<mapsto> Str ''Successfully subscribed to the event''], coll')))"
  using assms by (simp add: SubscribeEvent_def Get_def)

lemma UnsuscribeEvent_allowed:
  assumes "Keys c ''username'' = Some u" and "u \<noteq> Str ''username''"
  shows "UnsuscribeEvent coll c =
     (case UpdateOne coll [(''_id'', Str (Param c ''_id''))] (Op_pull ''participants'' u) of
           (Inl err, coll') \<Rightarrow>
             (JSON 500 [''status'' \<mapsto> Str ''error'',
                        ''message'' \<mapsto> Str (''Failed to unsubscribe from event: '' @ err)], coll')
         | (Inr result, coll') \<Rightarrow>
             (if MatchedCount result = 0 then
                (JSON 404 [''status'' \<mapsto> Str ''error'',
                           ''message'' \<mapsto> Str ''Event not found or user not subscribed''], coll')
              else if ModifiedCount result = 0 then
                (JSON 409 [''status'' \<mapsto> Str ''error'',
                           ''message'' \<mapsto> Str ''Complejo is not already subscribed to the event.''], coll')
              else
                (JSON 200 [''status'' \<mapsto> Str ''success'',
                           ''message'' \<mapsto> Str ''Successfully unsubscribed from event''], coll')))"
  using assms by (simp add: UnsuscribeEvent_def Get_def)

text \<open>
  Claim C10. When the context holds no \<open>username\<close>, or holds the string \<open>username\<close> itself,
  \<open>SubscribeEvent\<close> and \<open>UnsuscribeEvent\<close> answer 403 and return the collection as it was:
  no document changed and no driver call logged. Behind the middleware this means that a
  request whose token carries the username claim \<open>username\<close> is answered 401 or 403 and leaves
  the collection as it was, so a user of that name can never subscribe or unsubscribe.
\<close>

theorem subscribe_placeholder_username_forbidden:
  "(Keys c ''username'' = None \<or> Keys c ''username'' = Some (Str ''username'') \<longrightarrow>
      SubscribeEvent coll c =
        (JSON 403 [''status'' \<mapsto> Str ''error'', ''code'' \<mapsto> Number 403,
                   ''message'' \<mapsto> Str ''You do not have a valid username.''], coll)
      \<and> UnsuscribeEvent coll c =
        (JSON 403 [''status'' \<mapsto> Str ''error'', ''code'' \<mapsto> Number 403,
                   ''message'' \<mapsto> Str ''You do not have a valid username.''], coll))
   \<and> (decode_segments lib (GetHeader c0 ''Authorization'') = Some (m, cl)
        \<and> cl ''username'' = Some (Str ''username'') \<longrightarrow>
      snd (with_auth lib k SubscribeEvent coll c0) = coll
      \<and> (http_status (fst (with_auth lib k SubscribeEvent coll c0)) = 401
          \<or> http_status (fst (with_auth lib k SubscribeEvent coll c0)) = 403)
      \<and> snd (with_auth lib k UnsuscribeEvent coll c0) = coll
      \<and> (http_status (fst (with_auth lib k UnsuscribeEvent coll c0)) = 401
          \<or> http_status (fst (with_auth lib k UnsuscribeEvent coll c0)) = 403))"
proof (intro conjI impI)
  assume "Keys c ''username'' = None \<or> Keys c ''username'' = Some (Str ''username'')"
  then show "SubscribeEvent coll c =
        (JSON 403 [''status'' \<mapsto> Str ''error'', ''code'' \<mapsto> Number 403,
                   ''message'' \<mapsto> Str ''You do not have a valid username.''], coll)"
    and "UnsuscribeEvent coll c =
        (JSON 403 [''status'' \<mapsto> Str ''error'', ''code'' \<mapsto> Number 403,
                   ''message'' \<mapsto> Str ''You do not have a valid username.''], coll)"
    by (simp_all add: SubscribeEvent_forbidden UnsuscribeEvent_forbidden)
next
  assume a: "decode_segments lib (GetHeader c0 ''Authorization'') = Some (m, cl)
        \<and> cl ''username'' = Some (Str ''username'')"
  consider (abort) r where "AuthMiddleware lib k c0 = Abort r" "http_status r = 401 \<or> http_status r = 403"
    | (pass) c' where "AuthMiddleware lib k c0 = Next c'" "Keys c' ''username'' = Some (Str ''username'')"
    using AuthMiddleware_cases [of lib k c0] a by auto
  then have "(snd (with_auth lib k SubscribeEvent coll c0) = coll
      \<and> (http_status (fst (with_auth lib k SubscribeEvent coll c0)) = 401
          \<or> http_status (fst (with_auth lib k SubscribeEvent coll c0)) = 403))
      \<and> (snd (with_auth lib k UnsuscribeEvent coll c0) = coll
      \<and> (http_status (fst (with_auth lib k UnsuscribeEvent coll c0)) = 401
          \<or> http_status (fst (with_auth lib k UnsuscribeEvent coll c0)) = 403))"
  proof cases
    case abort
    then show ?thesis by (auto simp add: with_auth_Abort)
  next
    case pass
    then show ?thesis
      by (simp add: with_auth_Next SubscribeEvent_forbidden UnsuscribeEvent_forbidden JSON_def)
  qed
  then show "snd (with_auth lib k SubscribeEvent coll c0) = coll"
    and "http_status (fst (with_auth lib k SubscribeEvent coll c0)) = 401
          \<or> http_status (fst (with_auth lib k SubscribeEvent coll c0)) = 403"
    and "snd (with_auth lib k UnsuscribeEvent coll c0) = coll"
    and "http_status (fst (with_auth lib k UnsuscribeEvent coll c0)) = 401
          \<or> http_status (fst (with_auth lib k UnsuscribeEvent coll c0)) = 403"
    by simp_all
qed

text \<open>The guard on a context that holds the name, and on the sample token of that user.\<close>

theorem subscribe_placeholder_username_forbidden_witness:
  "SubscribeEvent sample_events
     ((sample_context Map.empty)\<lparr>Keys := [''username'' \<mapsto> Str ''username'']\<rparr>) =
     (JSON 403 [''status'' \<mapsto> Str ''error'', ''code'' \<mapsto> Number 403,
                ''message'' \<mapsto> Str ''You do not have a valid username.''], sample_events)
   \<and> UnsuscribeEvent sample_events (sample_context Map.empty) =
     (JSON 403 [''status'' \<mapsto> Str ''error'', ''code'' \<mapsto> Number 403,
                ''message'' \<mapsto> Str ''You do not have a valid username.''], sample_events)
   \<and> snd (with_auth sample_lib sample_secret SubscribeEvent sample_events
             (sample_context [''Authorization'' \<mapsto> ''tok.username''])) = sample_events
   \<and> (http_status (fst (with_auth sample_lib sample_secret SubscribeEvent sample_events
             (sample_context [''Authorization'' \<mapsto> ''tok.username'']))) = 401
       \<or> http_status (fst (with_auth sample_lib sample_secret SubscribeEvent sample_events
             (sample_context [''Authorization'' \<mapsto> ''tok.username'']))) = 403)"
proof (intro conjI)
  show "SubscribeEvent sample_events
     ((sample_context Map.empty)\<lparr>Keys := [''username'' \<mapsto> Str ''username'']\<rparr>) =
     (JSON 403 [''status'' \<mapsto> Str ''error'', ''code'' \<mapsto> Number 403,
                ''message'' \<mapsto> Str ''You do not have a valid username.''], sample_events)"
    using subscribe_placeholder_username_forbidden
      [where c = "(sample_context Map.empty)\<lparr>Keys := [''username'' \<mapsto> Str ''username'']\<rparr>"
        and coll = sample_events, THEN conjunct1]
    by simp
  show "UnsuscribeEvent sample_events (sample_context Map.empty) =
     (JSON 403 [''status'' \<mapsto> Str ''error'', ''code'' \<mapsto> Number 403,
                ''message'' \<mapsto> Str ''You do not have a valid username.''], sample_events)"
    using subscribe_placeholder_username_forbidden
      [where c = "sample_context Map.empty" and coll = sample_events, THEN conjunct1]
    by (simp add: sample_context_def)
  have d: "decode_segments sample_lib
             (GetHeader (sample_context [''Authorization'' \<mapsto> ''tok.username'']) ''Authorization'') =
           Some (SigningMethodHS256,
                 [''_id'' \<mapsto> Str ''c1d2e3f4-0a1b-4c2d-8e3f-4a5b6c7d8e9f'',
                  ''username'' \<mapsto> Str ''username'', ''role'' \<mapsto> Str ''user''])"
    by (simp add: GetHeader_def sample_context_def sample_lib_def)
  note inst = subscribe_placeholder_username_forbidden
      [where ?c0.0 = "sample_context [''Authorization'' \<mapsto> ''tok.username'']"
        and lib = sample_lib and m = SigningMethodHS256
        and cl = "[''_id'' \<mapsto> Str ''c1d2e3f4-0a1b-4c2d-8e3f-4a5b6c7d8e9f'',
                   ''username'' \<mapsto> Str ''username'', ''role'' \<mapsto> Str ''user'']"
        and k = sample_secret and coll = sample_events, THEN conjunct2]
  show "snd (with_auth sample_lib sample_secret SubscribeEvent sample_events
             (sample_context [''Authorization'' \<mapsto> ''tok.username''])) = sample_events"
    using inst d by simp
  show "http_status (fst (with_auth sample_lib sample_secret SubscribeEvent sample_events
             (sample_context [''Authorization'' \<mapsto> ''tok.username'']))) = 401
       \<or> http_status (fst (with_auth sample_lib sample_secret SubscribeEvent sample_events
             (sample_context [''Authorization'' \<mapsto> ''tok.username'']))) = 403"
    using inst d by simp
qed

subsection \<open>The path parameter\<close>

lemma SubscribeEvent_unbound_param:
  assumes "Param c ''_id'' = ''''"
    and "list_all (\<lambda>d. d ''_id'' \<noteq> Some (Str '''')) (docs coll)"
  shows "docs (snd (SubscribeEvent coll c)) = docs coll
         \<and> (http_status (fst (SubscribeEvent coll c)) = 403
            \<or> http_status (fst (SubscribeEvent coll c)) = 404
            \<or> http_status (fst (SubscribeEvent coll c)) = 500)"
proof (cases "Keys c ''username'' = None \<or> Keys c ''username'' = Some (Str ''username'')")
  case True
  then show ?thesis
    by (simp add: SubscribeEvent_forbidden JSON_def)
next
  case False
  then obtain u where u: "Keys c ''username'' = Some u" "u \<noteq> Str ''username''"
    by auto
  show ?thesis
  proof (cases "fault coll (UpdateOne_call [(''_id'', Str '''')] (Op_addToSet ''participants'' u))")
    case None
    then show ?thesis
      using assms
      by (simp add: SubscribeEvent_allowed [OF u] UpdateOne_no_match no_empty_id_no_match JSON_def)
  next
    case (Some e)
    then show ?thesis
      using assms by (simp add: SubscribeEvent_allowed [OF u] UpdateOne_fault JSON_def)
  qed
qed

lemma UnsuscribeEvent_unbound_param:
  assumes "Param c ''_id'' = ''''"
    and "list_all (\<lambda>d. d ''_id'' \<noteq> Some (Str '''')) (docs coll)"
  shows "docs (snd (UnsuscribeEvent coll c)) = docs coll
         \<and> (http_status (fst (UnsuscribeEvent coll c)) = 403
            \<or> http_status (fst (UnsuscribeEvent coll c)) = 404
            \<or> http_status (fst (UnsuscribeEvent coll c)) = 500)"
proof (cases "Keys c ''username'' = None \<or> Keys c ''username'' = Some (Str ''username'')")
  case True
  then show ?thesis
    by (simp add: UnsuscribeEvent_forbidden JSON_def)
next
  case False
  then obtain u where u: "Keys c ''username'' = Some u" "u \<noteq> Str ''username''"
    by auto
  show ?thesis
  proof (cases "fault coll (UpdateOne_call [(''_id'', Str '''')] (Op_pull ''participants'' u))")
    case None
    then show ?thesis
      using assms
      by (simp add: UnsuscribeEvent_allowed [OF u] UpdateOne_no_match no_empty_id_no_match JSON_def)
  next
    case (Some e)
    then show ?thesis
      using assms by (simp add: UnsuscribeEvent_allowed [OF u] UpdateOne_fault JSON_def)
  qed
qed


lemma with_auth_unbound_param:
  assumes h: "\<And>c. Param c ''_id'' = '''' \<Longrightarrow>
          docs (snd (handler coll c)) = docs coll
         \<and> (http_status (fst (handler coll c)) = 403
            \<or> http_status (fst (handler coll c)) = 404
            \<or> http_status (fst (handler coll c)) = 500)"
    and p: "Param c0 ''_id'' = ''''"
  shows "docs (snd (with_auth lib k handler coll c0)) = docs coll
         \<and> (http_status (fst (with_auth lib k handler coll c0)) = 401
            \<or> http_status (fst (with_auth lib k handler coll c0)) = 403
            \<or> http_status (fst (with_auth lib k handler coll c0)) = 404
            \<or> http_status (fst (with_auth lib k handler coll c0)) = 500)"
proof -
  consider (abort) r where "AuthMiddleware lib k c0 = Abort r" "http_status r = 401 \<or> http_status r = 403"
    | (pass) m where "AuthMiddleware lib k c0 = Next (c0\<lparr>Keys := m\<rparr>)"
    using AuthMiddleware_cases [of lib k c0] by blast
  then show ?thesis
  proof cases
    case abort
    then show ?thesis by (auto simp add: with_auth_Abort)
  next
    case pass
    have "Param (c0\<lparr>Keys := m\<rparr>) ''_id'' = ''''"
      using p by (simp add: Param_def)
    from h [OF this] show ?thesis
      by (simp add: with_auth_Next [OF pass])
  qed
qed

text \<open>
  Claim C6, as the code has it. The routes bind the event's identifier under the name \<open>id\<close>,
  and both handlers read the parameter \<open>_id\<close>, which no route binds: they query for the
  document whose \<open>_id\<close> is the empty string. For every request on either route, whoever sends
  it and whatever event it names, as long as no stored event has the empty identifier (the
  identifiers are generated UUIDs): the stored documents stay as they were and the answer is
  401, 403, 404 or 500, never 200 and never 409.
\<close>

theorem subscribe_route_never_finds_event:
  "(req_path req = [''event'', seg, ''subscribe''] \<and> seg \<noteq> ''''
      \<and> list_all (\<lambda>d. d ''_id'' \<noteq> Some (Str '''')) (docs coll) \<longrightarrow>
    (\<exists>r coll'. PUT_event_subscribe lib k coll req = Some (r, coll')
        \<and> docs coll' = docs coll
        \<and> (http_status r = 401 \<or> http_status r = 403 \<or> http_status r = 404 \<or> http_status r = 500)))
   \<and> (req_path req = [''event'', seg, ''unsubscribe''] \<and> seg \<noteq> ''''
      \<and> list_all (\<lambda>d. d ''_id'' \<noteq> Some (Str '''')) (docs coll) \<longrightarrow>
    (\<exists>r coll'. PUT_event_unsubscribe lib k coll req = Some (r, coll')
        \<and> docs coll' = docs coll
        \<and> (http_status r = 401 \<or> http_status r = 403 \<or> http_status r = 404 \<or> http_status r = 500)))"
proof (intro conjI impI)
  assume a: "req_path req = [''event'', seg, ''subscribe''] \<and> seg \<noteq> ''''
      \<and> list_all (\<lambda>d. d ''_id'' \<noteq> Some (Str '''')) (docs coll)"
  let ?c = "new_context [(''id'', seg)] req"
  have p: "Param ?c ''_id'' = ''''"
    by (simp add: Param_def new_context_def)
  have r: "PUT_event_subscribe lib k coll req = Some (with_auth lib k SubscribeEvent coll ?c)"
    using a by (simp add: PUT_event_subscribe_def)
  have "docs (snd (with_auth lib k SubscribeEvent coll ?c)) = docs coll
         \<and> (http_status (fst (with_auth lib k SubscribeEvent coll ?c)) = 401
            \<or> http_status (fst (with_auth lib k SubscribeEvent coll ?c)) = 403
            \<or> http_status (fst (with_auth lib k SubscribeEvent coll ?c)) = 404
            \<or> http_status (fst (with_auth lib k SubscribeEvent coll ?c)) = 500)"
    using a by (intro with_auth_unbound_param SubscribeEvent_unbound_param p) simp_all
  then show "\<exists>r coll'. PUT_event_subscribe lib k coll req = Some (r, coll')
        \<and> docs coll' = docs coll
        \<and> (http_status r = 401 \<or> http_status r = 403 \<or> http_status r = 404 \<or> http_status r = 500)"
    unfolding r by (cases "with_auth lib k SubscribeEvent coll ?c") simp
next
  assume a: "req_path req = [''event'', seg, ''unsubscribe''] \<and> seg \<noteq> ''''
      \<and> list_all (\<lambda>d. d ''_id'' \<noteq> Some (Str '''')) (docs coll)"
  let ?c = "new_context [(''id'', seg)] req"
  have p: "Param ?c ''_id'' = ''''"
    by (simp add: Param_def new_context_def)
  have r: "PUT_event_unsubscribe lib k coll req = Some (with_auth lib k UnsuscribeEvent coll ?c)"
    using a by (simp add: PUT_event_unsubscribe_def)
  have "docs (snd (with_auth lib k UnsuscribeEvent coll ?c)) = docs coll
         \<and> (http_status (fst (with_auth lib k UnsuscribeEvent coll ?c)) = 401
            \<or> http_status (fst (with_auth lib k UnsuscribeEvent coll ?c)) = 403
            \<or> http_status (fst (with_auth lib k UnsuscribeEvent coll ?c)) = 404
            \<or> http_status (fst (with_auth lib k UnsuscribeEvent coll ?c)) = 500)"
    using a by (intro with_auth_unbound_param UnsuscribeEvent_unbound_param p) simp_all
  then show "\<exists>r coll'. PUT_event_unsubscribe lib k coll req = Some (r, coll')
        \<and> docs coll' = docs coll
        \<and> (http_status r = 401 \<or> http_status r = 403 \<or> http_status r = 404 \<or> http_status r = 500)"
    unfolding r by (cases "with_auth lib k UnsuscribeEvent coll ?c") simp
qed

text \<open>
  The user alice subscribes to the stored sample event, twice: 404 both times, and the
  participants stay empty.
\<close>

lemma req_path_sample: "req_path (sample_request path tok) = path"
  by (simp add: sample_request_def)

lemma alice_passes:
  "AuthMiddleware sample_lib sample_secret (new_context bound (sample_request path ''tok.alice'')) =
     Next ((new_context bound (sample_request path ''tok.alice''))\<lparr>Keys := alice_claims\<rparr>)"
  using AuthMiddleware_pass [where c = "new_context bound (sample_request path ''tok.alice'')"
        and lib = sample_lib and k = sample_secret and s = "''tok.alice''" and alg = "''HS256''"
        and cl = alice_claims and role = "''user''" and username = "''alice''" and id' = alice_id]
  by (simp add: GetHeader_def new_context_def sample_request_def sample_lib_def
      SigningMethodHS256_def alice_claims_def alice_id_def)

lemma subscribe_handler_404:
  "SubscribeEvent (sample_events\<lparr>calls := cs\<rparr>)
      ((new_context [(''id'', event_id)] (sample_request path ''tok.alice''))\<lparr>Keys := alice_claims\<rparr>) =
   (JSON 404 [''status'' \<mapsto> Str ''error'', ''message'' \<mapsto> Str ''Event not found''],
    sample_events\<lparr>calls := cs @ [UpdateOne_call [(''_id'', Str '''')]
                                   (Op_addToSet ''participants'' (Str ''alice''))]\<rparr>)"
  by (simp add: SubscribeEvent_def Param_def Get_def new_context_def alice_claims_def
      UpdateOne_def sample_events_def matches_def event_id_def)

lemma subscribe_route_404:
  "PUT_event_subscribe sample_lib sample_secret (sample_events\<lparr>calls := cs\<rparr>)
      (sample_request [''event'', event_id, ''subscribe''] ''tok.alice'') =
   Some (JSON 404 [''status'' \<mapsto> Str ''error'', ''message'' \<mapsto> Str ''Event not found''],
         sample_events\<lparr>calls := cs @ [UpdateOne_call [(''_id'', Str '''')]
                                        (Op_addToSet ''participants'' (Str ''alice''))]\<rparr>)"
proof -
  have "match_route [''event'', '':id'', ''subscribe''] [''event'', event_id, ''subscribe''] =
          Some [(''id'', event_id)]"
    by (simp add: event_id_def)
  then show ?thesis
    by (simp add: PUT_event_subscribe_def req_path_sample with_auth_def alice_passes
        subscribe_handler_404)
qed

theorem subscribe_route_never_finds_event_witness:
  "PUT_event_subscribe sample_lib sample_secret sample_events
      (sample_request [''event'', event_id, ''subscribe''] ''tok.alice'') =
   Some (JSON 404 [''status'' \<mapsto> Str ''error'', ''message'' \<mapsto> Str ''Event not found''],
         sample_events\<lparr>calls := [UpdateOne_call [(''_id'', Str '''')]
                                    (Op_addToSet ''participants'' (Str ''alice''))]\<rparr>)
   \<and> PUT_event_subscribe sample_lib sample_secret
        (sample_events\<lparr>calls := [UpdateOne_call [(''_id'', Str '''')]
                                    (Op_addToSet ''participants'' (Str ''alice''))]\<rparr>)
        (sample_request [''event'', event_id, ''subscribe''] ''tok.alice'') =
   Some (JSON 404 [''status'' \<mapsto> Str ''error'', ''message'' \<mapsto> Str ''Event not found''],
         sample_events\<lparr>calls := [UpdateOne_call [(''_id'', Str '''')]
                                    (Op_addToSet ''participants'' (Str ''alice'')),
                                  UpdateOne_call [(''_id'', Str '''')]
                                    (Op_addToSet ''participants'' (Str ''alice''))]\<rparr>)
   \<and> (\<exists>r coll'. PUT_event_unsubscribe sample_lib sample_secret sample_events
                    (sample_request [''event'', event_id, ''unsubscribe''] ''tok.alice'') =
                  Some (r, coll')
        \<and> docs coll' = docs sample_events
        \<and> (http_status r = 401 \<or> http_status r = 403 \<or> http_status r = 404 \<or> http_status r = 500))"
proof (intro conjI)
  show "PUT_event_subscribe sample_lib sample_secret sample_events
      (sample_request [''event'', event_id, ''subscribe''] ''tok.alice'') =
   Some (JSON 404 [''status'' \<mapsto> Str ''error'', ''message'' \<mapsto> Str ''Event not found''],
         sample_events\<lparr>calls := [UpdateOne_call [(''_id'', Str '''')]
                                    (Op_addToSet ''participants'' (Str ''alice''))]\<rparr>)"
    using subscribe_route_404 [of "[]"] by (simp add: sample_events_def)
  show "PUT_event_subscribe sample_lib sample_secret
        (sample_events\<lparr>calls := [UpdateOne_call [(''_id'', Str '''')]
                                    (Op_addToSet ''participants'' (Str ''alice''))]\<rparr>)
        (sample_request [''event'', event_id, ''subscribe''] ''tok.alice'') =
   Some (JSON 404 [''status'' \<mapsto> Str ''error'', ''message'' \<mapsto> Str ''Event not found''],
         sample_events\<lparr>calls := [UpdateOne_call [(''_id'', Str '''')]
                                    (Op_addToSet ''participants'' (Str ''alice'')),
                                  UpdateOne_call [(''_id'', Str '''')]
                                    (Op_addToSet ''participants'' (Str ''alice''))]\<rparr>)"
    using subscribe_route_404
      [of "[UpdateOne_call [(''_id'', Str '''')] (Op_addToSet ''participants'' (Str ''alice''))]"]
    by simp
  show "\<exists>r coll'. PUT_event_unsubscribe sample_lib sample_secret sample_events
                    (sample_request [''event'', event_id, ''unsubscribe''] ''tok.alice'') =
                  Some (r, coll')
        \<and> docs coll' = docs sample_events
        \<and> (http_status r = 401 \<or> http_status r = 403 \<or> http_status r = 404 \<or> http_status r = 500)"
    using subscribe_route_never_finds_event
      [where req = "sample_request [''event'', event_id, ''unsubscribe''] ''tok.alice''"
        and seg = event_id and coll = sample_events and lib = sample_lib and k = sample_secret]
    by (simp add: req_path_sample sample_events_def event_id_def)
qed

section \<open>Updating a Complejo as a user\<close>

lemma UpdateComplejoForUser_forbidden:
  "Keys c ''_id'' = None \<or> Keys c ''role'' = None \<or> Keys c ''role'' = Some (Str ''user'') \<Longrightarrow>
   UpdateComplejoForUser coll c =
     (JSON 403 [''status'' \<mapsto> Str ''error'', ''code'' \<mapsto> Number 403,
                ''message'' \<mapsto> Str ''You do not have permission to update this Complejo.''], coll)"
  by (auto simp add: UpdateComplejoForUser_def Get_def split: option.splits)

lemma UpdateComplejoForUser_allowed:
  assumes "Keys c ''_id'' = Some i" and "Keys c ''role'' = Some r" and "r \<noteq> Str ''user''"
  shows "UpdateComplejoForUser coll c =
        (case ShouldBindJSON c of
           Inl err \<Rightarrow>
             (JSON 400 [''status'' \<mapsto> Str ''error'', ''code'' \<mapsto> Number 400,
                        ''message'' \<mapsto> Str (''Invalid JSON format: '' @ err)], coll)
         | Inr updateData \<Rightarrow>
             (let filteredUpdate = copy_fields allowedFields updateData Map.empty in
              if len filteredUpdate = 0 then
                (JSON 400 [''status'' \<mapsto> Str ''error'', ''code'' \<mapsto> Number 400,
                           ''message'' \<mapsto> Str ''No valid fields to update''], coll)
              else
                (case UpdateOne coll [(''_id'', i), (''role'', Str ''user'')]
                        (Op_set filteredUpdate) of
                   (Inl err, coll') \<Rightarrow>
                     (JSON 500 [''status'' \<mapsto> Str ''error'', ''code'' \<mapsto> Number 500,
                                ''message'' \<mapsto> Str (''Failed to update Complejo: '' @ err)], coll')
                 | (Inr result, coll') \<Rightarrow>
                     (if MatchedCount result = 0 then
                        (JSON 404 [''status'' \<mapsto> Str ''error'', ''code'' \<mapsto> Number 404,
                                   ''message'' \<mapsto> Str ''Complejo not found or insufficient permissions''],
                         coll')
                      else
                        (JSON 200 [''status'' \<mapsto> Str ''success'', ''code'' \<mapsto> Number 200,
                                   ''message'' \<mapsto> Str ''Complejo updated successfully''], coll')))))"
  using assms by (simp add: UpdateComplejoForUser_def Get_def)

lemma UpdateComplejoForUser_allowed_status:
  assumes "Keys c ''_id'' = Some i" and "Keys c ''role'' = Some r" and "r \<noteq> Str ''user''"
  shows "http_status (fst (UpdateComplejoForUser coll c)) \<noteq> 403"
  unfolding UpdateComplejoForUser_allowed [OF assms]
  by (simp add: JSON_def Let_def split: sum.splits prod.splits)

text \<open>
  Claim C1, as the code has it. The permission check of \<open>UpdateComplejoForUser\<close> rejects the
  role it is meant to admit: the handler answers 403, with the collection untouched, when an
  identity attribute is absent and also when the role is \<open>user\<close>; with both attributes
  present and any other role it does not answer 403 and goes on to decode the payload.
\<close>

theorem UpdateComplejoForUser_guard_inverted:
  "(Keys c ''_id'' = None \<or> Keys c ''role'' = None \<or> Keys c ''role'' = Some (Str ''user'') \<longrightarrow>
      UpdateComplejoForUser coll c =
        (JSON 403 [''status'' \<mapsto> Str ''error'', ''code'' \<mapsto> Number 403,
                   ''message'' \<mapsto> Str ''You do not have permission to update this Complejo.''], coll))
   \<and> (Keys c ''_id'' = Some i \<and> Keys c ''role'' = Some r \<and> r \<noteq> Str ''user'' \<longrightarrow>
        http_status (fst (UpdateComplejoForUser coll c)) \<noteq> 403)"
  using UpdateComplejoForUser_forbidden [of c coll] UpdateComplejoForUser_allowed_status [of c i r coll]
  by blast

text \<open>
  The user alice, with the identity the middleware attaches for her token, is refused; the
  administrator root is let through (and then matches no document, since the query asks for
  the role \<open>user\<close>). The last line is alice's request as the route receives it.
\<close>

theorem UpdateComplejoForUser_guard_inverted_witness:
  "UpdateComplejoForUser sample_complejos (sample_update alice_claims [''weight'' \<mapsto> Str ''82'']) =
     (JSON 403 [''status'' \<mapsto> Str ''error'', ''code'' \<mapsto> Number 403,
                ''message'' \<mapsto> Str ''You do not have permission to update this Complejo.''],
      sample_complejos)
   \<and> http_status (fst (UpdateComplejoForUser sample_complejos
                         (sample_update root_claims [''weight'' \<mapsto> Str ''82'']))) \<noteq> 403
   \<and> PUT_complejo_user sample_lib sample_secret sample_complejos
         (sample_put [''complejo'', ''user''] ''tok.alice'' [''weight'' \<mapsto> Str ''82'']) =
       Some (JSON 403 [''status'' \<mapsto> Str ''error'', ''code'' \<mapsto> Number 403,
                       ''message'' \<mapsto> Str ''You do not have permission to update this Complejo.''],
             sample_complejos)"
proof (intro conjI)
  have h: "UpdateComplejoForUser sample_complejos
             ((sample_update alice_claims [''weight'' \<mapsto> Str ''82''])
                \<lparr>Header := [''Authorization'' \<mapsto> ''tok.alice'']\<rparr>) =
     (JSON 403 [''status'' \<mapsto> Str ''error'', ''code'' \<mapsto> Number 403,
                ''message'' \<mapsto> Str ''You do not have permission to update this Complejo.''],
      sample_complejos)"
    using UpdateComplejoForUser_guard_inverted
      [where c = "(sample_update alice_claims [''weight'' \<mapsto> Str ''82''])
                    \<lparr>Header := [''Authorization'' \<mapsto> ''tok.alice'']\<rparr>"
        and coll = sample_complejos, THEN conjunct1]
    by (simp add: sample_update_def alice_claims_def)
  show "PUT_complejo_user sample_lib sample_secret sample_complejos
         (sample_put [''complejo'', ''user''] ''tok.alice'' [''weight'' \<mapsto> Str ''82'']) =
       Some (JSON 403 [''status'' \<mapsto> Str ''error'', ''code'' \<mapsto> Number 403,
                       ''message'' \<mapsto> Str ''You do not have permission to update this Complejo.''],
             sample_complejos)"
    by (simp add: PUT_complejo_user_def req_path_put with_auth_def put_context_alice h)
  show "UpdateComplejoForUser sample_complejos (sample_update alice_claims [''weight'' \<mapsto> Str ''82'']) =
     (JSON 403 [''status'' \<mapsto> Str ''error'', ''code'' \<mapsto> Number 403,
                ''message'' \<mapsto> Str ''You do not have permission to update this Complejo.''],
      sample_complejos)"
    using UpdateComplejoForUser_guard_inverted
      [where c = "sample_update alice_claims [''weight'' \<mapsto> Str ''82'']"
        and coll = sample_complejos, THEN conjunct1]
    by (simp add: sample_update_def alice_claims_def)
  show "http_status (fst (UpdateComplejoForUser sample_complejos
                         (sample_update root_claims [''weight'' \<mapsto> Str ''82'']))) \<noteq> 403"
    using UpdateComplejoForUser_guard_inverted
      [where c = "sample_update root_claims [''weight'' \<mapsto> Str ''82'']"
        and coll = sample_complejos and i = "Str root_id" and r = "Str ''admin''", THEN conjunct2]
    by (simp add: sample_update_def root_claims_def)
qed

subsection \<open>The allow-list\<close>

lemma UpdateOne_calls:
  "calls (snd (UpdateOne coll q u)) = calls coll @ [UpdateOne_call q u]"
  by (simp add: UpdateOne_def Let_def split: option.splits sum.splits prod.splits)

lemma copy_fields_restrict:
  "copy_fields fs updateData acc = acc ++ (updateData |` set fs)"
proof (induction fs arbitrary: acc)
  case Nil
  then show ?case by simp
next
  case (Cons f fs)
  show ?case
  proof (cases "updateData f")
    case None
    have "updateData |` insert f (set fs) = updateData |` set fs"
      using None by (auto simp add: restrict_map_def fun_eq_iff)
    with None Cons.IH [of acc] show ?thesis by simp
  next
    case (Some v)
    have "copy_fields (f # fs) updateData acc = copy_fields fs updateData (acc(f \<mapsto> v))"
      using Some by simp
    also have "\<dots> = acc(f \<mapsto> v) ++ (updateData |` set fs)"
      by (rule Cons.IH)
    also have "\<dots> = acc ++ (updateData |` insert f (set fs))"
      using Some by (auto simp add: restrict_map_def map_add_def fun_eq_iff split: option.splits)
    finally show ?thesis by simp
  qed
qed

lemma set_allowedFields:
  "set allowedFields = {''username'', ''weight'', ''height'', ''bench'', ''squad'', ''deadlift'', ''photo''}"
  by (simp add: allowedFields_def)

lemma filteredUpdate_eq:
  "copy_fields allowedFields updateData Map.empty =
     updateData |` {''username'', ''weight'', ''height'', ''bench'', ''squad'', ''deadlift'', ''photo''}"
  unfolding copy_fields_restrict set_allowedFields by simp

lemma len_restrict_zero:
  assumes "finite A"
  shows "(len (m |` A) = 0) = (m |` A = Map.empty)"
proof -
  have "finite (dom (m |` A))"
    using assms by (simp add: finite_subset [of _ A])
  then have "(len (m |` A) = 0) = (dom (m |` A) = {})"
    unfolding len_def by (rule card_0_eq)
  then show ?thesis
    unfolding dom_eq_empty_conv .
qed

lemma snd_respond:
  "snd (case x of
          (Inl err, coll') \<Rightarrow> (f err, coll')
        | (Inr result, coll') \<Rightarrow> (if P result then (g, coll') else (h, coll'))) = snd x"
  by (simp split: prod.splits sum.splits)

text \<open>
  Claim C7. For a request that passed the permission check and whose body decoded to
  \<open>updateData\<close>: the patch the handler builds is \<open>updateData\<close> restricted to the seven allowed
  field names, so every other field is dropped without an error; when that patch is empty the
  handler answers 400 and returns the collection as it was (no driver call); otherwise it
  makes exactly one driver call, an \<open>UpdateOne\<close> that sets exactly that patch.
\<close>

theorem UpdateComplejoForUser_allow_list:
  "Keys c ''_id'' = Some i \<and> Keys c ''role'' = Some r \<and> r \<noteq> Str ''user''
     \<and> ShouldBindJSON c = Inr updateData \<longrightarrow>
   copy_fields allowedFields updateData Map.empty =
     updateData |` {''username'', ''weight'', ''height'', ''bench'', ''squad'', ''deadlift'', ''photo''}
   \<and> (updateData |` {''username'', ''weight'', ''height'', ''bench'', ''squad'', ''deadlift'', ''photo''}
         = Map.empty \<longrightarrow>
       UpdateComplejoForUser coll c =
         (JSON 400 [''status'' \<mapsto> Str ''error'', ''code'' \<mapsto> Number 400,
                    ''message'' \<mapsto> Str ''No valid fields to update''], coll))
   \<and> (updateData |` {''username'', ''weight'', ''height'', ''bench'', ''squad'', ''deadlift'', ''photo''}
         \<noteq> Map.empty \<longrightarrow>
       calls (snd (UpdateComplejoForUser coll c)) =
         calls coll @
           [UpdateOne_call [(''_id'', i), (''role'', Str ''user'')]
              (Op_set (updateData |` {''username'', ''weight'', ''height'', ''bench'', ''squad'',
                                      ''deadlift'', ''photo''}))])"
proof (intro impI)
  assume a: "Keys c ''_id'' = Some i \<and> Keys c ''role'' = Some r \<and> r \<noteq> Str ''user''
     \<and> ShouldBindJSON c = Inr updateData"
  let ?S = "{''username'', ''weight'', ''height'', ''bench'', ''squad'', ''deadlift'', ''photo''}"
  have k: "Keys c ''_id'' = Some i" "Keys c ''role'' = Some r" "r \<noteq> Str ''user''"
    using a by simp_all
  have b: "ShouldBindJSON c = Inr updateData"
    using a by simp
  have l: "(len (updateData |` ?S) = 0) = (updateData |` ?S = Map.empty)"
    by (rule len_restrict_zero) simp
  have e: "updateData |` ?S = Map.empty \<Longrightarrow>
       UpdateComplejoForUser coll c =
         (JSON 400 [''status'' \<mapsto> Str ''error'', ''code'' \<mapsto> Number 400,
                    ''message'' \<mapsto> Str ''No valid fields to update''], coll)"
    unfolding UpdateComplejoForUser_allowed [OF k] b filteredUpdate_eq
    using l by (simp add: Let_def)
  have n: "updateData |` ?S \<noteq> Map.empty \<Longrightarrow>
       calls (snd (UpdateComplejoForUser coll c)) =
         calls coll @
           [UpdateOne_call [(''_id'', i), (''role'', Str ''user'')] (Op_set (updateData |` ?S))]"
    unfolding UpdateComplejoForUser_allowed [OF k] b filteredUpdate_eq
    using l UpdateOne_calls [of coll "[(''_id'', i), (''role'', Str ''user'')]" "Op_set (updateData |` ?S)"]
    by (simp add: Let_def snd_respond)
  from e n show "copy_fields allowedFields updateData Map.empty = updateData |` ?S
   \<and> (updateData |` ?S = Map.empty \<longrightarrow>
       UpdateComplejoForUser coll c =
         (JSON 400 [''status'' \<mapsto> Str ''error'', ''code'' \<mapsto> Number 400,
                    ''message'' \<mapsto> Str ''No valid fields to update''], coll))
   \<and> (updateData |` ?S \<noteq> Map.empty \<longrightarrow>
       calls (snd (UpdateComplejoForUser coll c)) =
         calls coll @
           [UpdateOne_call [(''_id'', i), (''role'', Str ''user'')] (Op_set (updateData |` ?S))])"
    using filteredUpdate_eq [of updateData] by blast
qed

text \<open>
  A payload with one allowed and two other fields, and a payload with no allowed field.
\<close>

theorem UpdateComplejoForUser_allow_list_witness:
  "calls (snd (UpdateComplejoForUser sample_complejos
                 (sample_update root_claims
                    [''weight'' \<mapsto> Str ''82'', ''role'' \<mapsto> Str ''admin'', ''_id'' \<mapsto> Str ''x'']))) =
     [UpdateOne_call [(''_id'', Str root_id), (''role'', Str ''user'')]
        (Op_set [''weight'' \<mapsto> Str ''82''])]
   \<and> UpdateComplejoForUser sample_complejos
         (sample_update root_claims [''role'' \<mapsto> Str ''admin'', ''imc'' \<mapsto> Str ''NPC'']) =
       (JSON 400 [''status'' \<mapsto> Str ''error'', ''code'' \<mapsto> Number 400,
                  ''message'' \<mapsto> Str ''No valid fields to update''], sample_complejos)"
proof (intro conjI)
  have r: "[''weight'' \<mapsto> Str ''82'', ''role'' \<mapsto> Str ''admin'', ''_id'' \<mapsto> Str ''x'']
             |` {''username'', ''weight'', ''height'', ''bench'', ''squad'', ''deadlift'', ''photo''} =
           [''weight'' \<mapsto> Str ''82'']"
    by (auto simp add: restrict_map_def fun_eq_iff)
  show "calls (snd (UpdateComplejoForUser sample_complejos
                 (sample_update root_claims
                    [''weight'' \<mapsto> Str ''82'', ''role'' \<mapsto> Str ''admin'', ''_id'' \<mapsto> Str ''x'']))) =
     [UpdateOne_call [(''_id'', Str root_id), (''role'', Str ''user'')]
        (Op_set [''weight'' \<mapsto> Str ''82''])]"
    using UpdateComplejoForUser_allow_list
      [where c = "sample_update root_claims
                    [''weight'' \<mapsto> Str ''82'', ''role'' \<mapsto> Str ''admin'', ''_id'' \<mapsto> Str ''x'']"
        and i = "Str root_id" and r = "Str ''admin''" and coll = sample_complejos
        and updateData = "[''weight'' \<mapsto> Str ''82'', ''role'' \<mapsto> Str ''admin'', ''_id'' \<mapsto> Str ''x'']"]
    unfolding r
    by (simp add: sample_update_def root_claims_def sample_complejos_def)
  have e: "[''role'' \<mapsto> Str ''admin'', ''imc'' \<mapsto> Str ''NPC'']
             |` {''username'', ''weight'', ''height'', ''bench'', ''squad'', ''deadlift'', ''photo''} =
           Map.empty"
    by (auto simp add: restrict_map_def fun_eq_iff)
  show "UpdateComplejoForUser sample_complejos
         (sample_update root_claims [''role'' \<mapsto> Str ''admin'', ''imc'' \<mapsto> Str ''NPC'']) =
       (JSON 400 [''status'' \<mapsto> Str ''error'', ''code'' \<mapsto> Number 400,
                  ''message'' \<mapsto> Str ''No valid fields to update''], sample_complejos)"
    using UpdateComplejoForUser_allow_list
      [where c = "sample_update root_claims [''role'' \<mapsto> Str ''admin'', ''imc'' \<mapsto> Str ''NPC'']"
        and i = "Str root_id" and r = "Str ''admin''" and coll = sample_complejos
        and updateData = "[''role'' \<mapsto> Str ''admin'', ''imc'' \<mapsto> Str ''NPC'']"]
    unfolding e
    by (simp add: sample_update_def root_claims_def)
qed

section \<open>Updating as an administrator\<close>

lemma UpdateComplejoForAdmin_forbidden:
  "Keys c ''role'' = None \<or> Keys c ''_id'' \<noteq> Some (Str ''_id'') \<Longrightarrow>
   UpdateComplejoForAdmin coll c =
     (JSON 403 [''status'' \<mapsto> Str ''error'', ''code'' \<mapsto> Number 403,
                ''message'' \<mapsto> Str ''You do not have permission to update this Complejo.''], coll)"
  by (auto simp add: UpdateComplejoForAdmin_def Get_def split: option.splits)

lemma UpdateEventForAdmin_forbidden:
  "Keys c ''role'' = None \<or> Keys c ''_id'' \<noteq> Some (Str ''_id'') \<Longrightarrow>
   UpdateEventForAdmin coll c =
     (JSON 403 [''status'' \<mapsto> Str ''error'', ''code'' \<mapsto> Number 403,
                ''message'' \<mapsto> Str ''You do not have permission to update this Complejo.''], coll)"
  by (auto simp add: UpdateEventForAdmin_def Get_def split: option.splits)

lemma UpdateComplejoForAdmin_allowed:
  assumes "Keys c ''role'' = Some r" and "Keys c ''_id'' = Some (Str ''_id'')"
  shows "UpdateComplejoForAdmin coll c =
        (case ShouldBindJSON c of
           Inl err \<Rightarrow>
             (JSON 400 [''status'' \<mapsto> Str ''error'', ''code'' \<mapsto> Number 400,
                        ''message'' \<mapsto> Str (''Invalid JSON format: '' @ err)], coll)
         | Inr decoded \<Rightarrow>
             (case UpdateOne coll [(''_id'', Str ''_id'')] (Op_set (decoded(''_id'' := None))) of
                (Inl err, coll') \<Rightarrow>
                  (JSON 500 [''status'' \<mapsto> Str ''error'', ''code'' \<mapsto> Number 500,
                             ''message'' \<mapsto> Str (''Failed to update Complejo: '' @ err)], coll')
              | (Inr result, coll') \<Rightarrow>
                  (if MatchedCount result = 0 then
                     (JSON 404 [''status'' \<mapsto> Str ''error'', ''code'' \<mapsto> Number 404,
                                ''message'' \<mapsto> Str ''Complejo not found''], coll')
                   else
                     (JSON 200 [''status'' \<mapsto> Str ''success'', ''code'' \<mapsto> Number 200,
                                ''message'' \<mapsto> Str ''Complejo updated successfully''], coll'))))"
  using assms by (simp add: UpdateComplejoForAdmin_def Get_def Let_def cong: sum.case_cong)

lemma UpdateEventForAdmin_eq: "UpdateEventForAdmin = UpdateComplejoForAdmin"
  by (intro ext) (simp add: UpdateEventForAdmin_def UpdateComplejoForAdmin_def)

lemma UpdateComplejoForAdmin_allowed_status:
  assumes "Keys c ''role'' = Some r" and "Keys c ''_id'' = Some (Str ''_id'')"
  shows "http_status (fst (UpdateComplejoForAdmin coll c)) \<noteq> 403"
  unfolding UpdateComplejoForAdmin_allowed [OF assms]
  by (simp add: JSON_def split: sum.splits prod.splits)

text \<open>
  Claim C2, as the code has it. The guard of \<open>UpdateComplejoForAdmin\<close> and of
  \<open>UpdateEventForAdmin\<close> is \<open>!roleExists || (role != "admin" && !idExist) || id != "_id"\<close>.
  It compares the caller's identifier with the literal \<open>_id\<close>: every identity whose identifier
  is anything else is answered 403 with the collection untouched, administrators included,
  and an identity whose identifier is that literal is let through whatever its role is.
\<close>

theorem admin_update_guard:
  "(Keys c ''role'' = None \<or> Keys c ''_id'' \<noteq> Some (Str ''_id'') \<longrightarrow>
      UpdateComplejoForAdmin coll c =
        (JSON 403 [''status'' \<mapsto> Str ''error'', ''code'' \<mapsto> Number 403,
                   ''message'' \<mapsto> Str ''You do not have permission to update this Complejo.''], coll)
      \<and> UpdateEventForAdmin coll c =
        (JSON 403 [''status'' \<mapsto> Str ''error'', ''code'' \<mapsto> Number 403,
                   ''message'' \<mapsto> Str ''You do not have permission to update this Complejo.''], coll))
   \<and> (Keys c ''role'' = Some r \<and> Keys c ''_id'' = Some (Str ''_id'') \<longrightarrow>
        http_status (fst (UpdateComplejoForAdmin coll c)) \<noteq> 403
        \<and> http_status (fst (UpdateEventForAdmin coll c)) \<noteq> 403)"
  using UpdateComplejoForAdmin_forbidden [of c coll] UpdateEventForAdmin_forbidden [of c coll]
    UpdateComplejoForAdmin_allowed_status [of c r coll]
  unfolding UpdateEventForAdmin_eq by blast

text \<open>
  The administrator root, with the identity the middleware attaches for the sample token, is
  refused by both handlers; an identity with the role \<open>user\<close> and the identifier \<open>_id\<close> is not.
  The last two lines are root's requests as the routes receive them.
\<close>

theorem admin_update_guard_witness:
  "UpdateComplejoForAdmin sample_complejos (sample_update root_claims [''weight'' \<mapsto> Str ''82'']) =
     (JSON 403 [''status'' \<mapsto> Str ''error'', ''code'' \<mapsto> Number 403,
                ''message'' \<mapsto> Str ''You do not have permission to update this Complejo.''],
      sample_complejos)
   \<and> UpdateEventForAdmin sample_events (sample_update root_claims [''title'' \<mapsto> Str ''Moved'']) =
     (JSON 403 [''status'' \<mapsto> Str ''error'', ''code'' \<mapsto> Number 403,
                ''message'' \<mapsto> Str ''You do not have permission to update this Complejo.''],
      sample_events)
   \<and> http_status (fst (UpdateComplejoForAdmin sample_complejos
                         (sample_update literal_id_keys [''role'' \<mapsto> Str ''admin'']))) \<noteq> 403
   \<and> http_status (fst (UpdateEventForAdmin sample_events
                         (sample_update literal_id_keys [''title'' \<mapsto> Str ''Moved'']))) \<noteq> 403
   \<and> PUT_complejo_admin sample_lib sample_secret sample_complejos
         (sample_put [''complejo'', ''admin''] ''tok.root'' [''weight'' \<mapsto> Str ''82'']) =
       Some (JSON 403 [''status'' \<mapsto> Str ''error'', ''code'' \<mapsto> Number 403,
                       ''message'' \<mapsto> Str ''You do not have permission to update this Complejo.''],
             sample_complejos)
   \<and> PUT_event_admin sample_lib sample_secret sample_events
         (sample_put [''event'', ''admin''] ''tok.root'' [''title'' \<mapsto> Str ''Moved'']) =
       Some (JSON 403 [''status'' \<mapsto> Str ''error'', ''code'' \<mapsto> Number 403,
                       ''message'' \<mapsto> Str ''You do not have permission to update this Complejo.''],
             sample_events)"
proof (intro conjI)
  have h: "UpdateComplejoForAdmin sample_complejos
             ((sample_update root_claims [''weight'' \<mapsto> Str ''82''])
                \<lparr>Header := [''Authorization'' \<mapsto> ''tok.root'']\<rparr>) =
     (JSON 403 [''status'' \<mapsto> Str ''error'', ''code'' \<mapsto> Number 403,
                ''message'' \<mapsto> Str ''You do not have permission to update this Complejo.''],
      sample_complejos)"
    using admin_update_guard
      [where c = "(sample_update root_claims [''weight'' \<mapsto> Str ''82''])
                    \<lparr>Header := [''Authorization'' \<mapsto> ''tok.root'']\<rparr>"
        and coll = sample_complejos, THEN conjunct1]
    by (simp add: sample_update_def root_claims_def root_id_def)
  show "PUT_complejo_admin sample_lib sample_secret sample_complejos
         (sample_put [''complejo'', ''admin''] ''tok.root'' [''weight'' \<mapsto> Str ''82'']) =
       Some (JSON 403 [''status'' \<mapsto> Str ''error'', ''code'' \<mapsto> Number 403,
                       ''message'' \<mapsto> Str ''You do not have permission to update this Complejo.''],
             sample_complejos)"
    by (simp add: PUT_complejo_admin_def req_path_put with_auth_def put_context_root h)
  have e: "UpdateEventForAdmin sample_events
             ((sample_update root_claims [''title'' \<mapsto> Str ''Moved''])
                \<lparr>Header := [''Authorization'' \<mapsto> ''tok.root'']\<rparr>) =
     (JSON 403 [''status'' \<mapsto> Str ''error'', ''code'' \<mapsto> Number 403,
                ''message'' \<mapsto> Str ''You do not have permission to update this Complejo.''],
      sample_events)"
    using admin_update_guard
      [where c = "(sample_update root_claims [''title'' \<mapsto> Str ''Moved''])
                    \<lparr>Header := [''Authorization'' \<mapsto> ''tok.root'']\<rparr>"
        and coll = sample_events, THEN conjunct1]
    by (simp add: sample_update_def root_claims_def root_id_def)
  show "PUT_event_admin sample_lib sample_secret sample_events
         (sample_put [''event'', ''admin''] ''tok.root'' [''title'' \<mapsto> Str ''Moved'']) =
       Some (JSON 403 [''status'' \<mapsto> Str ''error'', ''code'' \<mapsto> Number 403,
                       ''message'' \<mapsto> Str ''You do not have permission to update this Complejo.''],
             sample_events)"
    by (simp add: PUT_event_admin_def req_path_put with_auth_def put_context_root e)
  show "UpdateComplejoForAdmin sample_complejos (sample_update root_claims [''weight'' \<mapsto> Str ''82'']) =
     (JSON 403 [''status'' \<mapsto> Str ''error'', ''code'' \<mapsto> Number 403,
                ''message'' \<mapsto> Str ''You do not have permission to update this Complejo.''],
      sample_complejos)"
    using admin_update_guard
      [where c = "sample_update root_claims [''weight'' \<mapsto> Str ''82'']"
        and coll = sample_complejos, THEN conjunct1]
    by (simp add: sample_update_def root_claims_def root_id_def)
  show "UpdateEventForAdmin sample_events (sample_update root_claims [''title'' \<mapsto> Str ''Moved'']) =
     (JSON 403 [''status'' \<mapsto> Str ''error'', ''code'' \<mapsto> Number 403,
                ''message'' \<mapsto> Str ''You do not have permission to update this Complejo.''],
      sample_events)"
    using admin_update_guard
      [where c = "sample_update root_claims [''title'' \<mapsto> Str ''Moved'']"
        and coll = sample_events, THEN conjunct1]
    by (simp add: sample_update_def root_claims_def root_id_def)
  show "http_status (fst (UpdateComplejoForAdmin sample_complejos
                         (sample_update literal_id_keys [''role'' \<mapsto> Str ''admin'']))) \<noteq> 403"
    using admin_update_guard
      [where c = "sample_update literal_id_keys [''role'' \<mapsto> Str ''admin'']"
        and coll = sample_complejos and r = "Str ''user''", THEN conjunct2]
    by (simp add: sample_update_def literal_id_keys_def)
  show "http_status (fst (UpdateEventForAdmin sample_events
                         (sample_update literal_id_keys [''title'' \<mapsto> Str ''Moved'']))) \<noteq> 403"
    using admin_update_guard
      [where c = "sample_update literal_id_keys [''title'' \<mapsto> Str ''Moved'']"
        and coll = sample_events and r = "Str ''user''", THEN conjunct2]
    by (simp add: sample_update_def literal_id_keys_def)
qed

subsection \<open>The identifier is taken out of the patch\<close>

lemma update_first_set_ids:
  "update_first q (Op_set m) ds = Inr (ds', r) \<Longrightarrow> m ''_id'' = None \<Longrightarrow>
   map (\<lambda>d. d ''_id'') ds' = map (\<lambda>d. d ''_id'') ds"
proof (induction ds arbitrary: ds' r)
  case Nil
  then show ?case by simp
next
  case (Cons d ds)
  show ?case
  proof (cases "matches q d")
    case True
    with Cons.prems show ?thesis
      by (auto simp add: map_add_def)
  next
    case False
    with Cons.prems obtain ds0 where "update_first q (Op_set m) ds = Inr (ds0, r)" "ds' = d # ds0"
      by (auto split: sum.splits)
    with Cons.IH [of ds0 r] Cons.prems(2) show ?thesis
      by simp
  qed
qed

lemma UpdateOne_set_ids:
  "m ''_id'' = None \<Longrightarrow>
   map (\<lambda>d. d ''_id'') (docs (snd (UpdateOne coll q (Op_set m)))) = map (\<lambda>d. d ''_id'') (docs coll)"
  by (auto simp add: UpdateOne_def Let_def update_first_set_ids split: option.splits sum.splits)

lemma UpdateComplejoForAdmin_effect:
  "(snd (UpdateComplejoForAdmin coll c) = coll
      \<or> (\<exists>decoded. ShouldBindJSON c = Inr decoded
            \<and> snd (UpdateComplejoForAdmin coll c) =
                snd (UpdateOne coll [(''_id'', Str ''_id'')] (Op_set (decoded(''_id'' := None))))))"
proof (cases "Keys c ''role'' = None \<or> Keys c ''_id'' \<noteq> Some (Str ''_id'')")
  case True
  then show ?thesis
    by (simp add: UpdateComplejoForAdmin_forbidden)
next
  case False
  then obtain r where k: "Keys c ''role'' = Some r" "Keys c ''_id'' = Some (Str ''_id'')"
    by auto
  show ?thesis
    unfolding UpdateComplejoForAdmin_allowed [OF k]
    by (simp split: sum.splits prod.splits)
qed

text \<open>
  Claim C8. Whatever the context and the payload are, \<open>UpdateComplejoForAdmin\<close> and
  \<open>UpdateEventForAdmin\<close> either make no driver call at all, or make exactly one: an
  \<open>UpdateOne\<close> whose patch is the decoded payload with the field \<open>_id\<close> removed. In both cases
  every stored document keeps the \<open>_id\<close> it had.
\<close>

theorem admin_update_strips_id:
  "(calls (snd (UpdateComplejoForAdmin coll c)) = calls coll
      \<or> (\<exists>decoded. ShouldBindJSON c = Inr decoded
            \<and> calls (snd (UpdateComplejoForAdmin coll c)) =
                calls coll @ [UpdateOne_call [(''_id'', Str ''_id'')]
                                (Op_set (decoded(''_id'' := None)))]))
   \<and> map (\<lambda>d. d ''_id'') (docs (snd (UpdateComplejoForAdmin coll c))) =
       map (\<lambda>d. d ''_id'') (docs coll)
   \<and> (calls (snd (UpdateEventForAdmin coll c)) = calls coll
      \<or> (\<exists>decoded. ShouldBindJSON c = Inr decoded
            \<and> calls (snd (UpdateEventForAdmin coll c)) =
                calls coll @ [UpdateOne_call [(''_id'', Str ''_id'')]
                                (Op_set (decoded(''_id'' := None)))]))
   \<and> map (\<lambda>d. d ''_id'') (docs (snd (UpdateEventForAdmin coll c))) =
       map (\<lambda>d. d ''_id'') (docs coll)"
proof -
  have 1: "calls (snd (UpdateComplejoForAdmin coll c)) = calls coll
      \<or> (\<exists>decoded. ShouldBindJSON c = Inr decoded
            \<and> calls (snd (UpdateComplejoForAdmin coll c)) =
                calls coll @ [UpdateOne_call [(''_id'', Str ''_id'')]
                                (Op_set (decoded(''_id'' := None)))])"
    using UpdateComplejoForAdmin_effect [of coll c] by (auto simp add: UpdateOne_calls)
  have 2: "map (\<lambda>d. d ''_id'') (docs (snd (UpdateComplejoForAdmin coll c))) =
       map (\<lambda>d. d ''_id'') (docs coll)"
    using UpdateComplejoForAdmin_effect [of coll c] by (auto simp add: UpdateOne_set_ids)
  from 1 2 show ?thesis
    unfolding UpdateEventForAdmin_eq by simp
qed

text \<open>
  A payload that supplies an \<open>_id\<close> and a username, on the one identity the guard lets
  through: the username is stored, the identifier is not.
\<close>

lemma literal_id_update:
  "UpdateComplejoForAdmin literal_id_collection
     (sample_update literal_id_keys [''_id'' \<mapsto> Str ''evil'', ''username'' \<mapsto> Str ''mallory'']) =
   (JSON 200 [''status'' \<mapsto> Str ''success'', ''code'' \<mapsto> Number 200,
              ''message'' \<mapsto> Str ''Complejo updated successfully''],
    snd (UpdateOne literal_id_collection [(''_id'', Str ''_id'')]
           (Op_set ([''_id'' \<mapsto> Str ''evil'', ''username'' \<mapsto> Str ''mallory''](''_id'' := None)))))"
proof -
  have k: "Keys (sample_update literal_id_keys
                   [''_id'' \<mapsto> Str ''evil'', ''username'' \<mapsto> Str ''mallory'']) ''role'' =
             Some (Str ''user'')"
    "Keys (sample_update literal_id_keys
                   [''_id'' \<mapsto> Str ''evil'', ''username'' \<mapsto> Str ''mallory'']) ''_id'' =
             Some (Str ''_id'')"
    by (simp_all add: sample_update_def literal_id_keys_def)
  show ?thesis
    unfolding UpdateComplejoForAdmin_allowed [OF k]
    by (simp add: sample_update_def UpdateOne_def literal_id_collection_def matches_def)
qed

theorem admin_update_strips_id_witness:
  "map (\<lambda>d. d ''_id'')
     (docs (snd (UpdateComplejoForAdmin literal_id_collection
                   (sample_update literal_id_keys
                      [''_id'' \<mapsto> Str ''evil'', ''username'' \<mapsto> Str ''mallory''])))) =
     [Some (Str ''_id'')]
   \<and> map (\<lambda>d. d ''username'')
     (docs (snd (UpdateComplejoForAdmin literal_id_collection
                   (sample_update literal_id_keys
                      [''_id'' \<mapsto> Str ''evil'', ''username'' \<mapsto> Str ''mallory''])))) =
     [Some (Str ''mallory'')]
   \<and> calls (snd (UpdateComplejoForAdmin literal_id_collection
                   (sample_update literal_id_keys
                      [''_id'' \<mapsto> Str ''evil'', ''username'' \<mapsto> Str ''mallory'']))) =
     [UpdateOne_call [(''_id'', Str ''_id'')]
        (Op_set ([''_id'' \<mapsto> Str ''evil'', ''username'' \<mapsto> Str ''mallory''](''_id'' := None)))]"
proof (intro conjI)
  show "map (\<lambda>d. d ''_id'')
     (docs (snd (UpdateComplejoForAdmin literal_id_collection
                   (sample_update literal_id_keys
                      [''_id'' \<mapsto> Str ''evil'', ''username'' \<mapsto> Str ''mallory''])))) =
     [Some (Str ''_id'')]"
    using admin_update_strips_id
      [where coll = literal_id_collection
        and c = "sample_update literal_id_keys
                   [''_id'' \<mapsto> Str ''evil'', ''username'' \<mapsto> Str ''mallory'']"]
    by (simp add: literal_id_collection_def)
  show "map (\<lambda>d. d ''username'')
     (docs (snd (UpdateComplejoForAdmin literal_id_collection
                   (sample_update literal_id_keys
                      [''_id'' \<mapsto> Str ''evil'', ''username'' \<mapsto> Str ''mallory''])))) =
     [Some (Str ''mallory'')]"
    unfolding literal_id_update
    by (simp add: UpdateOne_def literal_id_collection_def matches_def)
  show "calls (snd (UpdateComplejoForAdmin literal_id_collection
                   (sample_update literal_id_keys
                      [''_id'' \<mapsto> Str ''evil'', ''username'' \<mapsto> Str ''mallory'']))) =
     [UpdateOne_call [(''_id'', Str ''_id'')]
        (Op_set ([''_id'' \<mapsto> Str ''evil'', ''username'' \<mapsto> Str ''mallory''](''_id'' := None)))]"
    unfolding literal_id_update
    by (simp add: UpdateOne_calls literal_id_collection_def)
qed

section \<open>Listing\<close>

lemma matches_Nil: "matches [] d"
  by (simp add: matches_def)

lemma Find_all:
  "fault coll (Find_call []) = None \<Longrightarrow>
   Find coll [] = (Inr (docs coll), coll\<lparr>calls := calls coll @ [Find_call []]\<rparr>)"
  by (simp add: Find_def matches_Nil)

lemma cursor_All_length:
  "cursor_All decode ds = Inr xs \<Longrightarrow> length xs = length ds"
  by (induction ds arbitrary: xs) (auto split: sum.splits)

lemma GetComplejos_found:
  assumes "fault coll (Find_call []) = None"
    and "cursor_All decode (docs coll) = Inr xs"
  shows "fst (GetComplejos decode coll c) =
     (if length xs = 0 then
        JSON 404 [''status'' \<mapsto> Str ''error'', ''code'' \<mapsto> Number 404,
                  ''message'' \<mapsto> Str ''No Complejos found in the database'']
      else
        JSON 200 [''status'' \<mapsto> Str ''success'', ''code'' \<mapsto> Number 200,
                  ''message'' \<mapsto> Str ''Complejos retrieved successfully'',
                  ''data'' \<mapsto> Array (map Complejo_json xs)])
     # (case fault coll Close_call of
          None \<Rightarrow> []
        | Some err \<Rightarrow>
            [JSON 500 [''status'' \<mapsto> Str ''error'', ''code'' \<mapsto> Number 500,
                       ''message'' \<mapsto> Str (''Failed to close the database cursor: '' @ err)]])"
  using assms
  by (simp add: GetComplejos_def Find_all cursor_Close_def Let_def split: option.splits)

lemma GetEvents_found:
  assumes "fault coll (Find_call []) = None"
    and "cursor_All decode (docs coll) = Inr xs"
  shows "fst (GetEvents decode to_json coll c) =
     (if length xs = 0 then
        JSON 404 [''status'' \<mapsto> Str ''error'', ''code'' \<mapsto> Number 404,
                  ''message'' \<mapsto> Str ''No Event found in the database'']
      else
        JSON 200 [''status'' \<mapsto> Str ''success'', ''code'' \<mapsto> Number 200,
                  ''message'' \<mapsto> Str ''Event retrieved successfully'',
                  ''data'' \<mapsto> Array (map to_json xs)])
     # (case fault coll Close_call of
          None \<Rightarrow> []
        | Some err \<Rightarrow>
            [JSON 500 [''status'' \<mapsto> Str ''error'', ''code'' \<mapsto> Number 500,
                       ''message'' \<mapsto> Str (''Failed to close the database cursor: '' @ err)]])"
  using assms
  by (simp add: GetEvents_def Find_all cursor_Close_def Let_def split: option.splits)

text \<open>
  Claim C9. When the query succeeds (\<open>Find\<close> returns no error and every stored document
  decodes), \<open>GetComplejos\<close> and \<open>GetEvents\<close> answer an empty collection with 404 and an error
  envelope, not with 200 and an empty array; a collection of at least one document is
  answered 200 with one entry per stored document. That answer is the first body written; a
  second one follows only when closing the cursor fails, and it does not change the status.
\<close>

theorem list_of_empty_collection_is_404:
  "(fault coll (Find_call []) = None \<and> docs coll = [] \<longrightarrow>
      fst (GetComplejos decode coll c) =
        JSON 404 [''status'' \<mapsto> Str ''error'', ''code'' \<mapsto> Number 404,
                  ''message'' \<mapsto> Str ''No Complejos found in the database'']
        # (case fault coll Close_call of
             None \<Rightarrow> []
           | Some err \<Rightarrow>
               [JSON 500 [''status'' \<mapsto> Str ''error'', ''code'' \<mapsto> Number 500,
                          ''message'' \<mapsto> Str (''Failed to close the database cursor: '' @ err)]])
      \<and> fst (GetEvents decode_event to_json coll c) =
        JSON 404 [''status'' \<mapsto> Str ''error'', ''code'' \<mapsto> Number 404,
                  ''message'' \<mapsto> Str ''No Event found in the database'']
        # (case fault coll Close_call of
             None \<Rightarrow> []
           | Some err \<Rightarrow>
               [JSON 500 [''status'' \<mapsto> Str ''error'', ''code'' \<mapsto> Number 500,
                          ''message'' \<mapsto> Str (''Failed to close the database cursor: '' @ err)]]))
   \<and> (fault coll (Find_call []) = None \<and> docs coll \<noteq> []
        \<and> cursor_All decode (docs coll) = Inr xs \<longrightarrow>
      length xs = length (docs coll)
      \<and> fst (GetComplejos decode coll c) =
        JSON 200 [''status'' \<mapsto> Str ''success'', ''code'' \<mapsto> Number 200,
                  ''message'' \<mapsto> Str ''Complejos retrieved successfully'',
                  ''data'' \<mapsto> Array (map Complejo_json xs)]
        # (case fault coll Close_call of
             None \<Rightarrow> []
           | Some err \<Rightarrow>
               [JSON 500 [''status'' \<mapsto> Str ''error'', ''code'' \<mapsto> Number 500,
                          ''message'' \<mapsto> Str (''Failed to close the database cursor: '' @ err)]]))
   \<and> (fault coll (Find_call []) = None \<and> docs coll \<noteq> []
        \<and> cursor_All decode_event (docs coll) = Inr ys \<longrightarrow>
      length ys = length (docs coll)
      \<and> fst (GetEvents decode_event to_json coll c) =
        JSON 200 [''status'' \<mapsto> Str ''success'', ''code'' \<mapsto> Number 200,
                  ''message'' \<mapsto> Str ''Event retrieved successfully'',
                  ''data'' \<mapsto> Array (map to_json ys)]
        # (case fault coll Close_call of
             None \<Rightarrow> []
           | Some err \<Rightarrow>
               [JSON 500 [''status'' \<mapsto> Str ''error'', ''code'' \<mapsto> Number 500,
                          ''message'' \<mapsto> Str (''Failed to close the database cursor: '' @ err)]]))"
proof (intro conjI impI)
  assume a: "fault coll (Find_call []) = None \<and> docs coll = []"
  then have "cursor_All decode (docs coll) = Inr []" "cursor_All decode_event (docs coll) = Inr []"
    by simp_all
  then show "fst (GetComplejos decode coll c) =
        JSON 404 [''status'' \<mapsto> Str ''error'', ''code'' \<mapsto> Number 404,
                  ''message'' \<mapsto> Str ''No Complejos found in the database'']
        # (case fault coll Close_call of
             None \<Rightarrow> []
           | Some err \<Rightarrow>
               [JSON 500 [''status'' \<mapsto> Str ''error'', ''code'' \<mapsto> Number 500,
                          ''message'' \<mapsto> Str (''Failed to close the database cursor: '' @ err)]])"
    and "fst (GetEvents decode_event to_json coll c) =
        JSON 404 [''status'' \<mapsto> Str ''error'', ''code'' \<mapsto> Number 404,
                  ''message'' \<mapsto> Str ''No Event found in the database'']
        # (case fault coll Close_call of
             None \<Rightarrow> []
           | Some err \<Rightarrow>
               [JSON 500 [''status'' \<mapsto> Str ''error'', ''code'' \<mapsto> Number 500,
                          ''message'' \<mapsto> Str (''Failed to close the database cursor: '' @ err)]])"
    using a GetComplejos_found [of coll decode "[]" c] GetEvents_found [of coll decode_event "[]" to_json c]
    by simp_all
next
  assume a: "fault coll (Find_call []) = None \<and> docs coll \<noteq> []
        \<and> cursor_All decode (docs coll) = Inr xs"
  then show l: "length xs = length (docs coll)"
    using cursor_All_length [of decode "docs coll" xs] by simp
  then have "length xs \<noteq> 0"
    using a by simp
  then show "fst (GetComplejos decode coll c) =
        JSON 200 [''status'' \<mapsto> Str ''success'', ''code'' \<mapsto> Number 200,
                  ''message'' \<mapsto> Str ''Complejos retrieved successfully'',
                  ''data'' \<mapsto> Array (map Complejo_json xs)]
        # (case fault coll Close_call of
             None \<Rightarrow> []
           | Some err \<Rightarrow>
               [JSON 500 [''status'' \<mapsto> Str ''error'', ''code'' \<mapsto> Number 500,
                          ''message'' \<mapsto> Str (''Failed to close the database cursor: '' @ err)]])"
    using a GetComplejos_found [of coll decode xs c] by simp
next
  assume a: "fault coll (Find_call []) = None \<and> docs coll \<noteq> []
        \<and> cursor_All decode_event (docs coll) = Inr ys"
  then show l: "length ys = length (docs coll)"
    using cursor_All_length [of decode_event "docs coll" ys] by simp
  then have "length ys \<noteq> 0"
    using a by simp
  then show "fst (GetEvents decode_event to_json coll c) =
        JSON 200 [''status'' \<mapsto> Str ''success'', ''code'' \<mapsto> Number 200,
                  ''message'' \<mapsto> Str ''Event retrieved successfully'',
                  ''data'' \<mapsto> Array (map to_json ys)]
        # (case fault coll Close_call of
             None \<Rightarrow> []
           | Some err \<Rightarrow>
               [JSON 500 [''status'' \<mapsto> Str ''error'', ''code'' \<mapsto> Number 500,
                          ''message'' \<mapsto> Str (''Failed to close the database cursor: '' @ err)]])"
    using a GetEvents_found [of coll decode_event ys to_json c] by simp
qed

text \<open>An empty collection, and the two stored sample profiles.\<close>

lemma sample_decode_alice: "sample_decode (Complejo_document alice) = Inr alice"
  by (simp add: sample_decode_def Complejo_document_def string_field_def alice_def)

lemma sample_decode_root: "sample_decode (Complejo_document root) = Inr root"
  by (simp add: sample_decode_def Complejo_document_def string_field_def root_def)

theorem list_of_empty_collection_is_404_witness:
  "fst (GetComplejos sample_decode empty_collection (sample_context Map.empty)) =
     [JSON 404 [''status'' \<mapsto> Str ''error'', ''code'' \<mapsto> Number 404,
                ''message'' \<mapsto> Str ''No Complejos found in the database'']]
   \<and> fst (GetEvents Inr (\<lambda>d. Str (string_field d ''_id'')) empty_collection (sample_context Map.empty)) =
     [JSON 404 [''status'' \<mapsto> Str ''error'', ''code'' \<mapsto> Number 404,
                ''message'' \<mapsto> Str ''No Event found in the database'']]
   \<and> fst (GetComplejos sample_decode sample_complejos (sample_context Map.empty)) =
     [JSON 200 [''status'' \<mapsto> Str ''success'', ''code'' \<mapsto> Number 200,
                ''message'' \<mapsto> Str ''Complejos retrieved successfully'',
                ''data'' \<mapsto> Array [Complejo_json alice, Complejo_json root]]]"
proof (intro conjI)
  note empty = list_of_empty_collection_is_404
      [where coll = empty_collection and decode = sample_decode and decode_event = Inr
        and to_json = "\<lambda>d. Str (string_field d ''_id'')" and c = "sample_context Map.empty", THEN conjunct1]
  show "fst (GetComplejos sample_decode empty_collection (sample_context Map.empty)) =
     [JSON 404 [''status'' \<mapsto> Str ''error'', ''code'' \<mapsto> Number 404,
                ''message'' \<mapsto> Str ''No Complejos found in the database'']]"
    using empty by (simp add: empty_collection_def)
  show "fst (GetEvents Inr (\<lambda>d. Str (string_field d ''_id'')) empty_collection (sample_context Map.empty)) =
     [JSON 404 [''status'' \<mapsto> Str ''error'', ''code'' \<mapsto> Number 404,
                ''message'' \<mapsto> Str ''No Event found in the database'']]"
    using empty by (simp add: empty_collection_def)
  have all: "cursor_All sample_decode (docs sample_complejos) = Inr [alice, root]"
    by (simp add: sample_complejos_def sample_decode_alice sample_decode_root)
  show "fst (GetComplejos sample_decode sample_complejos (sample_context Map.empty)) =
     [JSON 200 [''status'' \<mapsto> Str ''success'', ''code'' \<mapsto> Number 200,
                ''message'' \<mapsto> Str ''Complejos retrieved successfully'',
                ''data'' \<mapsto> Array [Complejo_json alice, Complejo_json root]]]"
    using list_of_empty_collection_is_404
      [where coll = sample_complejos and decode = sample_decode and xs = "[alice, root]"
        and c = "sample_context Map.empty", THEN conjunct2, THEN conjunct1] all
    by (simp add: sample_complejos_def)
qed

section \<open>Creating a Complejo\<close>









end
